theory Spec2Isabelle
  imports Main
begin

section \<open>Data model of the DCX issuer\<close>

text \<open>
  The embedding follows \<^verbatim>\<open>packages/issuer/src/dcx-issuer.ts\<close> (class \<^verbatim>\<open>DcxIssuer\<close>).
  Objects become records, \<^verbatim>\<open>undefined\<close> becomes \<open>None\<close>, a thrown error or a rejected
  promise becomes \<open>Inl\<close> of the error, and the remote DWN is an explicit state that every
  call takes and returns. Logging is left out.
\<close>

text \<open>An arbitrary JSON document (\<^verbatim>\<open>any\<close> in the source).\<close>

datatype json =
    JNull
  | JBool bool
  | JNum int
  | JStr string
  | JArr "json list"
  | JObj "(string \<times> json) list"

text \<open>
  The errors the class throws itself, plus \<open>TypeError\<close> for a property read on
  \<^verbatim>\<open>undefined\<close> and \<open>LibraryError\<close> for anything thrown by a collaborator (credential
  library, \<^verbatim>\<open>fetch\<close>, record data streams).
\<close>

datatype error =
    DwnError nat string
  | DcxDwnError string
  | DcxProtocolHandlerError string
  | TypeError string
  | LibraryError string

record Issuer =
  issuer_name :: string
  issuer_id :: string

record OutputDescriptor =
  od_id :: string
  od_name :: string

record CredentialManifest =
  manifest_id :: string
  manifest_issuer :: Issuer
  presentation_definition :: json
  output_descriptors :: "OutputDescriptor list"

text \<open>
  \<^verbatim>\<open>ServerHandler\<close> is \<^verbatim>\<open>{ id: string, handler: Handler }\<close>; the handler is a function of the
  host language and stays abstract (\<open>'h\<close>). Its field is not optional.
\<close>

record 'h ServerHandler =
  sh_id :: string
  sh_handler :: 'h

record Provider =
  provider_id :: string
  provider_endpoint :: string
  provider_method :: "string option"
  provider_headers :: "(string \<times> string) list option"

record 'h DcxOptions =
  handlers :: "'h ServerHandler list"
  providers :: "Provider list"
  manifests :: "CredentialManifest list"
  issuers :: "Issuer list"
  gateways :: "string list"
  dwns :: "string list"

section \<open>Handler registry\<close>

text \<open>
  \<^verbatim>\<open>this.dcxOptions.handlers.find((h) => h.id === id)?.handler ?? staticHandler\<close>
\<close>

definition findHandler :: "'h DcxOptions \<Rightarrow> string \<Rightarrow> 'h \<Rightarrow> 'h" where
  "findHandler opts ident staticHandler =
     (case find (\<lambda>serverHandler. sh_id serverHandler = ident) (handlers opts) of
        None \<Rightarrow> staticHandler
      | Some serverHandler \<Rightarrow> sh_handler serverHandler)"

section \<open>Manifest filtering\<close>

text \<open>
  \<^verbatim>\<open>this.dcxOptions.manifests.filter((manifest) =>
       manifestRecords.find((manifestRecord) => manifest.id !== manifestRecord.id))\<close>

  \<^verbatim>\<open>find\<close> yields the first existing manifest whose id differs, or \<^verbatim>\<open>undefined\<close>;
  \<^verbatim>\<open>filter\<close> keeps a configured manifest when that value is truthy, and an object always is.
\<close>

definition filterRecords :: "'h DcxOptions \<Rightarrow> CredentialManifest list \<Rightarrow> CredentialManifest list" where
  "filterRecords opts manifestRecords =
     filter (\<lambda>manifest.
        find (\<lambda>manifestRecord. manifest_id manifest \<noteq> manifest_id manifestRecord) manifestRecords \<noteq> None)
       (manifests opts)"

text \<open>
  The missing set in the words of the specification: a configured manifest is missing
  iff no existing manifest shares its id.
\<close>

definition computeMissing_spec :: "CredentialManifest list \<Rightarrow> CredentialManifest list \<Rightarrow> CredentialManifest list" where
  "computeMissing_spec configured existing =
     filter (\<lambda>m. find (\<lambda>e. manifest_id e = manifest_id m) existing = None) configured"

section \<open>Credential library interface\<close>

text \<open>
  The credential library (\<^verbatim>\<open>@web5/credentials\<close>) is a collaborator, so the functions the
  class calls are parameters. A credential is what \<^verbatim>\<open>parseJwt\<close> yields: \<open>vc_subject\<close> is
  \<^verbatim>\<open>vc.subject\<close> and \<open>vc_issuer\<close> is \<^verbatim>\<open>vc.vcDataModel.issuer as string\<close>.
  \<^verbatim>\<open>satisfiesPresentationDefinition\<close> returns nothing and throws when the definition is not
  satisfied: \<open>None\<close> is the normal return, \<open>Some e\<close> the throw. The result of
  \<^verbatim>\<open>verify\<close> is \<open>None\<close> for a falsy value and \<open>Some fields\<close> for an object.
\<close>

record VerifiableCredential =
  vc_type :: string
  vc_issuer :: string
  vc_subject :: string
  vc_data :: json

record VcCreateOptions =
  create_data :: json
  create_subject :: string
  create_issuer :: string
  create_type :: string

record CredentialLibrary =
  satisfiesPresentationDefinition :: "string list \<Rightarrow> json \<Rightarrow> error option"
  parseJwt :: "string \<Rightarrow> error + VerifiableCredential"
  vc_verify :: "string \<Rightarrow> error + (string \<times> json) list option"
  vc_create :: "VcCreateOptions \<Rightarrow> error + VerifiableCredential"
  vc_sign :: "VerifiableCredential \<Rightarrow> string \<Rightarrow> error + string"

text \<open>The calls made into the credential library, in the order they are made.\<close>

datatype LibCall =
    CallSatisfies "string list" json
  | CallParseJwt string
  | CallVerify string
  | CallCreate VcCreateOptions
  | CallSign VerifiableCredential string

text \<open>
  The static configuration \<^verbatim>\<open>dcxIssuerConfig\<close> (imported from \<^verbatim>\<open>./index.js\<close>) is a
  parameter; only its trusted input issuers are read here.
\<close>

record DcxIssuerConfig =
  DCX_INPUT_ISSUERS :: "Issuer list"

text \<open>
  Modelled from the spec: \<^verbatim>\<open>Objects.isEmpty\<close> of \<^verbatim>\<open>@dcx-protocol/common\<close> is not among the
  sources. The specification drops a credential whose verification "returns an empty
  result": an object is empty when it has no entry.
\<close>

definition Objects_isEmpty :: "(string \<times> json) list \<Rightarrow> bool" where
  "Objects_isEmpty obj = (obj = [])"

section \<open>Credential verification\<close>

text \<open>
  The body of the \<^verbatim>\<open>for (const vcJwt of vcJwts)\<close> loop of \<^verbatim>\<open>verifyCredentials\<close>; \<open>acc\<close>
  is \<^verbatim>\<open>verifiedCredentials\<close> and \<open>tr\<close> the library calls made so far. Each
  \<^verbatim>\<open>continue\<close> is a recursive call with \<open>acc\<close> unchanged; a throw of \<^verbatim>\<open>parseJwt\<close>
  or \<^verbatim>\<open>verify\<close> ends the loop.
\<close>

fun verifyEach :: "CredentialLibrary \<Rightarrow> 'h DcxOptions \<Rightarrow> DcxIssuerConfig \<Rightarrow> string \<Rightarrow> string list
    \<Rightarrow> VerifiableCredential list \<Rightarrow> LibCall list \<Rightarrow> (error + VerifiableCredential list) \<times> LibCall list" where
  "verifyEach L opts dcxIssuerConfig subjectDid [] acc tr = (Inr acc, tr)"
| "verifyEach L opts dcxIssuerConfig subjectDid (vcJwt # rest) acc tr =
     (case parseJwt L vcJwt of
        Inl e \<Rightarrow> (Inl e, tr @ [CallParseJwt vcJwt])
      | Inr vc \<Rightarrow>
          if vc_subject vc \<noteq> subjectDid
          then verifyEach L opts dcxIssuerConfig subjectDid rest acc (tr @ [CallParseJwt vcJwt])
          else
            let issuerIds = map issuer_id (issuers opts @ DCX_INPUT_ISSUERS dcxIssuerConfig) in
            if vc_issuer vc \<notin> set issuerIds
            then verifyEach L opts dcxIssuerConfig subjectDid rest acc (tr @ [CallParseJwt vcJwt])
            else
              (case vc_verify L vcJwt of
                 Inl e \<Rightarrow> (Inl e, tr @ [CallParseJwt vcJwt, CallVerify vcJwt])
               | Inr verified \<Rightarrow>
                   if verified = None \<or> Objects_isEmpty (the verified)
                   then verifyEach L opts dcxIssuerConfig subjectDid rest acc
                          (tr @ [CallParseJwt vcJwt, CallVerify vcJwt])
                   else verifyEach L opts dcxIssuerConfig subjectDid rest (acc @ [vc])
                          (tr @ [CallParseJwt vcJwt, CallVerify vcJwt])))"

definition verifyCredentials :: "CredentialLibrary \<Rightarrow> 'h DcxOptions \<Rightarrow> DcxIssuerConfig \<Rightarrow> string list
    \<Rightarrow> CredentialManifest \<Rightarrow> string \<Rightarrow> (error + VerifiableCredential list) \<times> LibCall list" where
  "verifyCredentials L opts dcxIssuerConfig vcJwts manifest subjectDid =
     (case satisfiesPresentationDefinition L vcJwts (presentation_definition manifest) of
        Some e \<Rightarrow> (Inl e, [CallSatisfies vcJwts (presentation_definition manifest)])
      | None \<Rightarrow>
          verifyEach L opts dcxIssuerConfig subjectDid vcJwts []
            [CallSatisfies vcJwts (presentation_definition manifest)])"

text \<open>
  The credentials the loop keeps, stated on one token: it parses, its subject is the
  submission author, its issuer is configured or statically trusted, and its
  verification returns a non-empty object.
\<close>

definition kept :: "CredentialLibrary \<Rightarrow> 'h DcxOptions \<Rightarrow> DcxIssuerConfig \<Rightarrow> string \<Rightarrow> string \<Rightarrow> bool" where
  "kept L opts dcxIssuerConfig subjectDid vcJwt =
     (case parseJwt L vcJwt of
        Inl e \<Rightarrow> False
      | Inr vc \<Rightarrow>
          vc_subject vc = subjectDid
          \<and> vc_issuer vc \<in> set (map issuer_id (issuers opts @ DCX_INPUT_ISSUERS dcxIssuerConfig))
          \<and> (case vc_verify L vcJwt of
                Inl e \<Rightarrow> False
              | Inr None \<Rightarrow> False
              | Inr (Some obj) \<Rightarrow> obj \<noteq> []))"

text \<open>
  The tokens on which the loop throws: the token does not parse, or it parses to the
  submission author as subject and to an allowed issuer and its verification throws.
\<close>

definition throws :: "CredentialLibrary \<Rightarrow> 'h DcxOptions \<Rightarrow> DcxIssuerConfig \<Rightarrow> string \<Rightarrow> string \<Rightarrow> bool" where
  "throws L opts dcxIssuerConfig subjectDid vcJwt =
     (case parseJwt L vcJwt of
        Inl e \<Rightarrow> True
      | Inr vc \<Rightarrow>
          vc_subject vc = subjectDid
          \<and> vc_issuer vc \<in> set (map issuer_id (issuers opts @ DCX_INPUT_ISSUERS dcxIssuerConfig))
          \<and> isl (vc_verify L vcJwt))"

section \<open>Credential issuance\<close>

record DescriptorMapEntry =
  dm_id :: string
  dm_format :: string
  dm_path :: string

record Fulfillment =
  descriptor_map :: "DescriptorMapEntry list"

record IssuanceResult =
  fulfillment :: Fulfillment
  verifiableCredential :: "string list"

text \<open>
  \<^verbatim>\<open>manifest.output_descriptors[0]\<close> is \<^verbatim>\<open>undefined\<close> on an empty array, and the next
  statement reads its \<^verbatim>\<open>id\<close>: a \<open>TypeError\<close>. \<open>agentDid\<close> is \<^verbatim>\<open>this.agent.agentDid\<close>,
  named by its uri.
\<close>

definition issueCredential :: "CredentialLibrary \<Rightarrow> string \<Rightarrow> json \<Rightarrow> string \<Rightarrow> CredentialManifest
    \<Rightarrow> (error + IssuanceResult) \<times> LibCall list" where
  "issueCredential L agentDid data subjectDid manifest =
     (case output_descriptors manifest of
        [] \<Rightarrow> (Inl (TypeError ''manifestOutputDescriptor is undefined''), [])
      | manifestOutputDescriptor # others \<Rightarrow>
          let createOptions =
                \<lparr> create_data = data, create_subject = subjectDid, create_issuer = agentDid,
                  create_type = od_name manifestOutputDescriptor \<rparr>
          in
          (case vc_create L createOptions of
             Inl e \<Rightarrow> (Inl e, [CallCreate createOptions])
           | Inr vc \<Rightarrow>
               (case vc_sign L vc agentDid of
                  Inl e \<Rightarrow> (Inl e, [CallCreate createOptions, CallSign vc agentDid])
                | Inr signed \<Rightarrow>
                    (Inr \<lparr> fulfillment =
                             \<lparr> descriptor_map =
                                 [\<lparr> dm_id = od_id manifestOutputDescriptor,
                                    dm_format = ''jwt_vc'',
                                    dm_path = ''$.verifiableCredential[0]'' \<rparr>] \<rparr>,
                           verifiableCredential = [signed] \<rparr>,
                     [CallCreate createOptions, CallSign vc agentDid]))))"

section \<open>Request to the data provider\<close>

text \<open>
  \<^verbatim>\<open>fetch\<close> is a parameter: it rejects (\<open>Inl\<close>) on a transport failure and otherwise
  resolves to a response, whose \<open>resp_json\<close> is the outcome of \<^verbatim>\<open>response.json()\<close>.
  \<^verbatim>\<open>stringifier\<close> (of \<^verbatim>\<open>@dcx-protocol/common\<close>) is a parameter as well. The optional
  \<^verbatim>\<open>params.id\<close> is an \<open>option\<close>; a provider's id is a string and never equals
  \<^verbatim>\<open>undefined\<close>.
\<close>

record HttpRequest =
  req_url :: string
  req_method :: string
  req_headers :: "(string \<times> string) list option"
  req_body :: string

record HttpResponse =
  resp_status :: nat
  resp_json :: "error + json"

definition provider_request :: "('b \<Rightarrow> string) \<Rightarrow> Provider \<Rightarrow> 'b \<Rightarrow> HttpRequest" where
  "provider_request stringifier provider body =
     \<lparr> req_url = provider_endpoint provider,
       req_method = (case provider_method provider of None \<Rightarrow> ''POST'' | Some m \<Rightarrow> m),
       req_headers = provider_headers provider,
       req_body = stringifier body \<rparr>"

definition requestCredential :: "(HttpRequest \<Rightarrow> error + HttpResponse) \<Rightarrow> ('b \<Rightarrow> string) \<Rightarrow> 'h DcxOptions
    \<Rightarrow> 'b \<Rightarrow> string option \<Rightarrow> error + json" where
  "requestCredential fetch stringifier opts body ident =
     (case find (\<lambda>provider. Some (provider_id provider) = ident) (providers opts) of
        None \<Rightarrow> Inl (DcxProtocolHandlerError ''No VC data provider configured'')
      | Some provider \<Rightarrow>
          (case fetch (provider_request stringifier provider body) of
             Inl e \<Rightarrow> Inl e
           | Inr response \<Rightarrow>
               (case resp_json response of
                  Inl e \<Rightarrow> Inl e
                | Inr data \<Rightarrow> Inr data)))"

section \<open>The DWN interface\<close>

text \<open>
  The node (\<^verbatim>\<open>this.web5.dwn\<close>) is a collaborator: its calls are the fields of \<open>Dwn\<close>, each a
  function of the node state \<open>'n\<close> that returns the response and the new state. Every
  response carries a status; a handle the response may omit is an \<open>option\<close>. The
  messages the class sends have constant filters (protocol, schema, path), which are not
  arguments here. \<open>record_data\<close> is the outcome of \<^verbatim>\<open>record.data.json()\<close> on a manifest
  record.
\<close>

record DwnStatus =
  status_code :: nat
  status_detail :: string

record ProtocolDefinition =
  protocol :: string

record DwnRecord =
  record_id :: string
  record_data :: "error + CredentialManifest"

record 'n Dwn =
  protocols_query :: "string \<Rightarrow> 'n \<Rightarrow> (DwnStatus \<times> ProtocolDefinition list option) \<times> 'n"
  protocols_configure :: "ProtocolDefinition \<Rightarrow> 'n \<Rightarrow> (DwnStatus \<times> ProtocolDefinition option) \<times> 'n"
  protocol_send :: "ProtocolDefinition \<Rightarrow> string \<Rightarrow> 'n \<Rightarrow> DwnStatus \<times> 'n"
  records_query :: "'n \<Rightarrow> (DwnStatus \<times> DwnRecord list option) \<times> 'n"
  records_read :: "string \<Rightarrow> 'n \<Rightarrow> (DwnStatus \<times> DwnRecord option) \<times> 'n"
  records_create :: "CredentialManifest \<Rightarrow> 'n \<Rightarrow> (DwnStatus \<times> DwnRecord option) \<times> 'n"
  record_send :: "DwnRecord \<Rightarrow> 'n \<Rightarrow> DwnStatus \<times> 'n"

text \<open>
  What the class reads from its surroundings: the agent's DID (\<^verbatim>\<open>this.agent.agentDid.uri\<close>),
  the protocol definition \<^verbatim>\<open>issuer\<close> (imported from \<^verbatim>\<open>./index.js\<close>) and
  \<^verbatim>\<open>DwnUtils.isFailure\<close> (of \<^verbatim>\<open>@dcx-protocol/common\<close>), all parameters.
\<close>

record DcxIssuerEnv =
  agentDid_uri :: string
  issuer_definition :: ProtocolDefinition
  isFailure :: "nat \<Rightarrow> bool"

text \<open>
  \<^verbatim>\<open>const x = await m; k(x)\<close>: a rejected promise (\<open>Inl\<close>) ends the function with that
  error, a fulfilled one hands its value to the rest.
\<close>

definition await_then :: "('n \<Rightarrow> (error + 'a) \<times> 'n) \<Rightarrow> ('a \<Rightarrow> 'n \<Rightarrow> (error + 'b) \<times> 'n)
    \<Rightarrow> 'n \<Rightarrow> (error + 'b) \<times> 'n" where
  "await_then m k n = (case m n of (Inl e, n1) \<Rightarrow> (Inl e, n1) | (Inr a, n1) \<Rightarrow> k a n1)"

text \<open>
  \<^verbatim>\<open>await Promise.all(xs.map(async (x) => ...))\<close>. \<^verbatim>\<open>map\<close> starts every callback, in
  list order, and each runs to its first \<^verbatim>\<open>await\<close>; the callbacks then resume in list
  order, each up to its next \<^verbatim>\<open>await\<close>, and so on turn by turn. A call to the node takes
  effect when it is made, so the first calls of all callbacks reach the node before the
  second call of any. \<open>map_state\<close> is one such turn: a function applied to each element
  in list order, the node state passed along.

  A callback ends \<open>Fulfilled\<close> with its value or \<open>Rejected\<close> in some turn with its
  error. No callback is cancelled when another is rejected. \<^verbatim>\<open>Promise.all\<close> is rejected
  with the rejection that comes first in time (the earliest turn; within a turn, the
  first in list order), and is fulfilled with the values in list order when no callback
  is rejected.
\<close>

datatype 'b settled =
    Fulfilled 'b
  | Rejected nat error


fun map_state :: "('a \<Rightarrow> 'n \<Rightarrow> 'r \<times> 'n) \<Rightarrow> 'a list \<Rightarrow> 'n \<Rightarrow> 'r list \<times> 'n" where
  "map_state f [] n = ([], n)"
| "map_state f (x # xs) n =
     (case f x n of (r, n1) \<Rightarrow> (case map_state f xs n1 of (rs, n2) \<Rightarrow> (r # rs, n2)))"

fun first_rejection :: "'b settled list \<Rightarrow> (nat \<times> error) option" where
  "first_rejection [] = None"
| "first_rejection (Fulfilled v # rest) = first_rejection rest"
| "first_rejection (Rejected k e # rest) =
     (case first_rejection rest of
        None \<Rightarrow> Some (k, e)
      | Some (k', e') \<Rightarrow> if k' < k then Some (k', e') else Some (k, e))"

fun fulfilled_values :: "'b settled list \<Rightarrow> 'b list" where
  "fulfilled_values [] = []"
| "fulfilled_values (Fulfilled v # rest) = v # fulfilled_values rest"
| "fulfilled_values (Rejected k e # rest) = fulfilled_values rest"

definition Promise_all :: "'b settled list \<Rightarrow> error + 'b list" where
  "Promise_all outcomes =
     (case first_rejection outcomes of
        Some (k, e) \<Rightarrow> Inl e
      | None \<Rightarrow> Inr (fulfilled_values outcomes))"

section \<open>Protocol reconciliation\<close>

definition queryProtocols :: "'n Dwn \<Rightarrow> DcxIssuerEnv \<Rightarrow> 'n
    \<Rightarrow> (error + DwnStatus \<times> ProtocolDefinition list) \<times> 'n" where
  "queryProtocols D env n =
     (case protocols_query D (protocol (issuer_definition env)) n of
        ((query, found), n1) \<Rightarrow>
          let protocols = (case found of None \<Rightarrow> [] | Some ps \<Rightarrow> ps) in
          if isFailure env (status_code query)
          then (Inl (DwnError (status_code query) (status_detail query)), n1)
          else (Inr (query, protocols), n1))"

definition configureProtocols :: "'n Dwn \<Rightarrow> DcxIssuerEnv \<Rightarrow> 'n
    \<Rightarrow> (error + DwnStatus \<times> ProtocolDefinition) \<times> 'n" where
  "configureProtocols D env n =
     (case protocols_configure D (issuer_definition env) n of
        ((configure, handle), n1) \<Rightarrow>
          if isFailure env (status_code configure) \<or> handle = None
          then (Inl (DwnError (status_code configure) (status_detail configure)), n1)
          else
            (case protocol_send D (the handle) (agentDid_uri env) n1 of
               (send, n2) \<Rightarrow>
                 if isFailure env (status_code send)
                 then (Inl (DwnError (status_code send) (status_detail send)), n2)
                 else (Inr (send, the handle), n2)))"

section \<open>Manifest reconciliation\<close>

definition queryRecords :: "'n Dwn \<Rightarrow> DcxIssuerEnv \<Rightarrow> 'n \<Rightarrow> (error + DwnStatus \<times> DwnRecord list) \<times> 'n" where
  "queryRecords D env n =
     (case records_query D n of
        ((status, found), n1) \<Rightarrow>
          let records = (case found of None \<Rightarrow> [] | Some rs \<Rightarrow> rs) in
          if isFailure env (status_code status)
          then (Inl (DwnError (status_code status) (status_detail status)), n1)
          else (Inr (status, records), n1))"

text \<open>
  \<open>readRecords\<close>. Each callback calls \<^verbatim>\<open>records.read\<close> for its record id and awaits
  the response; the status of the read is not looked at. In the next turn a response
  without a record makes \<^verbatim>\<open>record.data\<close> a \<open>TypeError\<close>; otherwise the callback
  returns the promise of \<^verbatim>\<open>record.data.json()\<close>, which settles after that.
\<close>

definition readRecords_settled :: "'n Dwn \<Rightarrow> DwnRecord list \<Rightarrow> 'n
    \<Rightarrow> CredentialManifest settled list \<times> 'n" where
  "readRecords_settled D manifestRecords n =
     (case map_state (\<lambda>manifestRecord. records_read D (record_id manifestRecord)) manifestRecords n of
        (responses, n1) \<Rightarrow>
          (map (\<lambda>response.
                  case snd response of
                    None \<Rightarrow> Rejected 1 (TypeError ''record is undefined'')
                  | Some record \<Rightarrow>
                      (case record_data record of
                         Inl e \<Rightarrow> Rejected 2 e
                       | Inr manifest \<Rightarrow> Fulfilled manifest))
             responses,
           n1))"

definition readRecords :: "'n Dwn \<Rightarrow> DwnRecord list \<Rightarrow> 'n \<Rightarrow> (error + CredentialManifest list) \<times> 'n" where
  "readRecords D manifestRecords n =
     (case readRecords_settled D manifestRecords n of
        (outcomes, n1) \<Rightarrow> (Promise_all outcomes, n1))"

text \<open>
  \<open>createManifestRecord\<close> first assigns the agent's DID to \<^verbatim>\<open>manifestRecord.issuer.id\<close>; the
  manifest written to the node is the patched one. (The assignment is to the caller's
  object too. Nothing modelled here reads the issuer of a configured manifest afterwards,
  apart from a later \<open>createManifestRecord\<close> that assigns the same value again, so the
  patched manifest is not handed back.)
\<close>

definition createManifestRecord :: "'n Dwn \<Rightarrow> DcxIssuerEnv \<Rightarrow> CredentialManifest \<Rightarrow> 'n
    \<Rightarrow> (error + DwnStatus \<times> DwnRecord option) \<times> 'n" where
  "createManifestRecord D env manifestRecord n =
     (let patched = manifestRecord
            \<lparr> manifest_issuer := (manifest_issuer manifestRecord)\<lparr> issuer_id := agentDid_uri env \<rparr> \<rparr>
      in
      case records_create D patched n of
        ((create, record), n1) \<Rightarrow>
          if isFailure env (status_code create)
          then (Inl (DwnError (status_code create) (status_detail create)), n1)
          else
            (case record of
               None \<Rightarrow>
                 (Inl (DcxDwnError (''Failed to create missing dwn manifest record: '' @ manifest_id manifestRecord)), n1)
             | Some r \<Rightarrow>
                 (case record_send D r n1 of
                    (send, n2) \<Rightarrow>
                      if isFailure env (status_code send)
                      then (Inl (DwnError (status_code send) (status_detail send)), n2)
                      else (Inr (send, Some r), n2))))"

text \<open>
  The three stretches of \<open>createManifestRecord\<close> between its \<^verbatim>\<open>await\<close>s, for its use
  under \<^verbatim>\<open>Promise.all\<close>: up to the call of \<^verbatim>\<open>records.create\<close>; from the response of
  the create to the call of \<^verbatim>\<open>record.send\<close>; from the response of the send to the
  \<^verbatim>\<open>return\<close>.
\<close>

definition createManifestRecord_create :: "'n Dwn \<Rightarrow> DcxIssuerEnv \<Rightarrow> CredentialManifest \<Rightarrow> 'n
    \<Rightarrow> (DwnStatus \<times> DwnRecord option) \<times> 'n" where
  "createManifestRecord_create D env manifestRecord n =
     records_create D
       (manifestRecord\<lparr> manifest_issuer := (manifest_issuer manifestRecord)\<lparr> issuer_id := agentDid_uri env \<rparr> \<rparr>)
       n"

definition createManifestRecord_send :: "'n Dwn \<Rightarrow> DcxIssuerEnv \<Rightarrow> CredentialManifest
    \<Rightarrow> DwnStatus \<times> DwnRecord option \<Rightarrow> 'n \<Rightarrow> (error + DwnRecord \<times> DwnStatus) \<times> 'n" where
  "createManifestRecord_send D env manifestRecord response n =
     (case response of
        (create, record) \<Rightarrow>
          if isFailure env (status_code create)
          then (Inl (DwnError (status_code create) (status_detail create)), n)
          else
            (case record of
               None \<Rightarrow>
                 (Inl (DcxDwnError (''Failed to create missing dwn manifest record: '' @ manifest_id manifestRecord)), n)
             | Some r \<Rightarrow>
                 (case record_send D r n of (send, n1) \<Rightarrow> (Inr (r, send), n1))))"

definition createManifestRecord_return :: "DcxIssuerEnv \<Rightarrow> DwnRecord \<times> DwnStatus
    \<Rightarrow> error + DwnStatus \<times> DwnRecord option" where
  "createManifestRecord_return env sent =
     (case sent of
        (r, send) \<Rightarrow>
          if isFailure env (status_code send)
          then Inl (DwnError (status_code send) (status_detail send))
          else Inr (send, Some r))"

text \<open>
  \<open>createRecords\<close>. The callback is
  \<^verbatim>\<open>async (manifestRecord) => (await this.createManifestRecord({ manifestRecord }))?.record\<close>.
  In the first turn every manifest is patched and its \<^verbatim>\<open>records.create\<close> called; in the
  second, each callback in list order either throws (failure status, or no record) or
  calls \<^verbatim>\<open>record.send\<close>; in the third, each remaining callback either throws (failure
  status of the send) or returns, and the arrow function takes the record of the response.
\<close>

definition createRecords_settled :: "'n Dwn \<Rightarrow> DcxIssuerEnv \<Rightarrow> CredentialManifest list \<Rightarrow> 'n
    \<Rightarrow> DwnRecord option settled list \<times> 'n" where
  "createRecords_settled D env manifestRecords n =
     (case map_state (createManifestRecord_create D env) manifestRecords n of
        (responses, n1) \<Rightarrow>
          (case map_state (\<lambda>started. createManifestRecord_send D env (fst started) (snd started))
                  (zip manifestRecords responses) n1 of
             (sents, n2) \<Rightarrow>
               (map (\<lambda>sent.
                       case sent of
                         Inl e \<Rightarrow> Rejected 1 e
                       | Inr pending \<Rightarrow>
                           (case createManifestRecord_return env pending of
                              Inl e \<Rightarrow> Rejected 2 e
                            | Inr response \<Rightarrow> Fulfilled (snd response)))
                  sents,
                n2)))"

text \<open>
  \<^verbatim>\<open>records.filter((record?: Record) => record !== undefined) as Record[]\<close> after the
  \<^verbatim>\<open>Promise.all\<close>.
\<close>

definition createRecords :: "'n Dwn \<Rightarrow> DcxIssuerEnv \<Rightarrow> CredentialManifest list \<Rightarrow> 'n
    \<Rightarrow> (error + DwnRecord list) \<times> 'n" where
  "createRecords D env manifestRecords n =
     (case createRecords_settled D env manifestRecords n of
        (outcomes, n1) \<Rightarrow>
          (case Promise_all outcomes of
             Inl e \<Rightarrow> (Inl e, n1)
           | Inr records \<Rightarrow> (Inr (map the (filter (\<lambda>record. record \<noteq> None) records)), n1)))"

section \<open>Setup\<close>

text \<open>
  The method \<^verbatim>\<open>setup()\<close> of the class (named \<open>setupDwn\<close> here, as the source's name
  is a command of Isabelle): its \<^verbatim>\<open>try\<close> block; the \<^verbatim>\<open>catch\<close> logs and rethrows, so
  an error of any step is the error of the whole.
\<close>

definition setupDwn :: "'n Dwn \<Rightarrow> DcxIssuerEnv \<Rightarrow> 'h DcxOptions \<Rightarrow> 'n \<Rightarrow> (error + unit) \<times> 'n" where
  "setupDwn D env opts =
     await_then (queryProtocols D env) (\<lambda>(status, protocols).
     await_then
       (if length protocols = 0
        then await_then (configureProtocols D env) (\<lambda>configured n. (Inr (), n))
        else (\<lambda>n. (Inr (), n))) (\<lambda>u.
     await_then (queryRecords D env) (\<lambda>(status, query).
     await_then (readRecords D query) (\<lambda>readManifests.
       if length readManifests = 0
       then await_then (createRecords D env (manifests opts)) (\<lambda>records n. (Inr (), n))
       else await_then (createRecords D env (filterRecords opts readManifests))
              (\<lambda>create n. (Inr (), n))))))"

section \<open>Example values\<close>

definition mk_manifest :: "string \<Rightarrow> string \<Rightarrow> CredentialManifest" where
  "mk_manifest ident issuerDid =
     \<lparr> manifest_id = ident,
       manifest_issuer = \<lparr> issuer_name = ''issuer'', issuer_id = issuerDid \<rparr>,
       presentation_definition = JObj [(''id'', JStr ident)],
       output_descriptors = [\<lparr> od_id = ident @ ''-output'', od_name = ident @ ''-credential'' \<rparr>] \<rparr>"

definition manifestA :: CredentialManifest where
  "manifestA = mk_manifest ''DCX-HANDSHAKE-MANIFEST'' ''did:x:cfg''"

definition manifestB :: CredentialManifest where
  "manifestB = mk_manifest ''EXAMPLE-MANIFEST'' ''did:x:cfg''"

definition mk_options :: "'h ServerHandler list \<Rightarrow> Provider list \<Rightarrow> CredentialManifest list \<Rightarrow> Issuer list \<Rightarrow> 'h DcxOptions" where
  "mk_options hs ps ms is =
     \<lparr> handlers = hs, providers = ps, manifests = ms, issuers = is,
       gateways = [''https://diddht.tbddev.org/''], dwns = [''https://dwn.tbddev.org/beta''] \<rparr>"

definition mk_vc :: "string \<Rightarrow> string \<Rightarrow> VerifiableCredential" where
  "mk_vc issuerDid subjectDid =
     \<lparr> vc_type = ''ExampleCredential'', vc_issuer = issuerDid, vc_subject = subjectDid, vc_data = JNull \<rparr>"

text \<open>
  A credential library for the examples. It knows six tokens; every other token is
  malformed. The presentation definition is satisfied by any non-empty token list.
\<close>

definition example_parseJwt :: "string \<Rightarrow> error + VerifiableCredential" where
  "example_parseJwt vcJwt =
     (if vcJwt = ''jwt-ok'' then Inr (mk_vc ''did:x:trusted'' ''did:x:B'')
      else if vcJwt = ''jwt-configured'' then Inr (mk_vc ''did:x:configured'' ''did:x:B'')
      else if vcJwt = ''jwt-untrusted'' then Inr (mk_vc ''did:x:unknown'' ''did:x:B'')
      else if vcJwt = ''jwt-other-subject'' then Inr (mk_vc ''did:x:trusted'' ''did:x:A'')
      else if vcJwt = ''jwt-bad-signature'' then Inr (mk_vc ''did:x:trusted'' ''did:x:B'')
      else if vcJwt = ''jwt-empty-result'' then Inr (mk_vc ''did:x:trusted'' ''did:x:B'')
      else Inl (LibraryError ''malformed jwt''))"

definition example_verify :: "string \<Rightarrow> error + (string \<times> json) list option" where
  "example_verify vcJwt =
     (if vcJwt = ''jwt-bad-signature'' then Inr None
      else if vcJwt = ''jwt-empty-result'' then Inr (Some [])
      else Inr (Some [(''verified'', JBool True)]))"

definition exampleLib :: CredentialLibrary where
  "exampleLib =
     \<lparr> satisfiesPresentationDefinition =
         (\<lambda>vcJwts pd. if vcJwts = [] then Some (LibraryError ''presentation definition not satisfied'') else None),
       parseJwt = example_parseJwt,
       vc_verify = example_verify,
       vc_create =
         (\<lambda>c. Inr \<lparr> vc_type = create_type c, vc_issuer = create_issuer c,
                    vc_subject = create_subject c, vc_data = create_data c \<rparr>),
       vc_sign = (\<lambda>vc did. Inr (''signed:'' @ vc_type vc @ '':'' @ vc_subject vc @ '':'' @ did)) \<rparr>"

text \<open>The example library with a presentation definition that no token list satisfies.\<close>

definition rejectingLib :: CredentialLibrary where
  "rejectingLib =
     exampleLib\<lparr> satisfiesPresentationDefinition :=
       (\<lambda>vcJwts pd. Some (LibraryError ''presentation definition not satisfied'')) \<rparr>"

definition exampleOptions :: "nat DcxOptions" where
  "exampleOptions =
     mk_options [] [] [manifestA]
       [\<lparr> issuer_name = ''configured issuer'', issuer_id = ''did:x:configured'' \<rparr>]"

definition exampleConfig :: DcxIssuerConfig where
  "exampleConfig =
     \<lparr> DCX_INPUT_ISSUERS = [\<lparr> issuer_name = ''trusted issuer'', issuer_id = ''did:x:trusted'' \<rparr>] \<rparr>"

definition exampleProvider :: Provider where
  "exampleProvider =
     \<lparr> provider_id = ''data-provider'', provider_endpoint = ''https://provider.example/vc-data'',
       provider_method = None, provider_headers = None \<rparr>"

text \<open>A \<^verbatim>\<open>fetch\<close> that resolves to an HTTP 500 response whose body is JSON.\<close>

definition fetch_500 :: "HttpRequest \<Rightarrow> error + HttpResponse" where
  "fetch_500 req =
     Inr \<lparr> resp_status = 500, resp_json = Inr (JObj [(''error'', JStr ''internal server error'')]) \<rparr>"

definition fetch_unreachable :: "HttpRequest \<Rightarrow> error + HttpResponse" where
  "fetch_unreachable req = Inl (LibraryError ''fetch failed'')"

definition example_stringifier :: "json \<Rightarrow> string" where
  "example_stringifier body = ''{}''"

text \<open>
  A node for the examples: it keeps the protocol definitions configured and the records
  created, in order, accepts every call, and gives the n-th record created a fresh id.
\<close>

record MemoryNode =
  node_protocols :: "ProtocolDefinition list"
  node_records :: "DwnRecord list"

definition status_ok :: DwnStatus where
  "status_ok = \<lparr> status_code = 200, status_detail = ''OK'' \<rparr>"

definition status_accepted :: DwnStatus where
  "status_accepted = \<lparr> status_code = 202, status_detail = ''Accepted'' \<rparr>"

definition memoryDwn :: "MemoryNode Dwn" where
  "memoryDwn =
     \<lparr> protocols_query = (\<lambda>uri n. ((status_ok, Some (filter (\<lambda>p. protocol p = uri) (node_protocols n))), n)),
       protocols_configure =
         (\<lambda>d n. ((status_accepted, Some d), n\<lparr> node_protocols := node_protocols n @ [d] \<rparr>)),
       protocol_send = (\<lambda>p did n. (status_accepted, n)),
       records_query = (\<lambda>n. ((status_ok, Some (node_records n)), n)),
       records_read = (\<lambda>rid n. ((status_ok, find (\<lambda>r. record_id r = rid) (node_records n)), n)),
       records_create =
         (\<lambda>m n.
            let r = \<lparr> record_id = ''record-'' @ replicate (length (node_records n)) (CHR ''i''),
                      record_data = Inr m \<rparr>
            in ((status_accepted, Some r), n\<lparr> node_records := node_records n @ [r] \<rparr>)),
       record_send = (\<lambda>r n. (status_accepted, n)) \<rparr>"

definition emptyNode :: MemoryNode where
  "emptyNode = \<lparr> node_protocols = [], node_records = [] \<rparr>"

definition exampleEnv :: DcxIssuerEnv where
  "exampleEnv =
     \<lparr> agentDid_uri = ''did:x:issuer-agent'',
       issuer_definition = \<lparr> protocol = ''https://decentralized.cx/protocol/credential-issuer'' \<rparr>,
       isFailure = (\<lambda>code. code < 200 \<or> 299 < code) \<rparr>"

text \<open>A node whose configure call reports success and returns no protocol handle.\<close>

definition dwn_no_handle :: "MemoryNode Dwn" where
  "dwn_no_handle = memoryDwn\<lparr> protocols_configure := (\<lambda>d n. ((status_accepted, None), n)) \<rparr>"

text \<open>A node whose configure call reports a failure status.\<close>

definition dwn_configure_fails :: "MemoryNode Dwn" where
  "dwn_configure_fails =
     memoryDwn\<lparr> protocols_configure :=
       (\<lambda>d n. ((\<lparr> status_code = 500, status_detail = ''Internal Server Error'' \<rparr>, None), n)) \<rparr>"

text \<open>
  A node whose create call reports success and returns no record for the manifest
  \<^verbatim>\<open>EXAMPLE-MANIFEST\<close>, and behaves as \<open>memoryDwn\<close> otherwise.
\<close>

definition dwn_no_record :: "MemoryNode Dwn" where
  "dwn_no_record =
     memoryDwn\<lparr> records_create :=
       (\<lambda>m n. if manifest_id m = ''EXAMPLE-MANIFEST'' then ((status_accepted, None), n)
               else records_create memoryDwn m n) \<rparr>"

text \<open>A node whose publish (send) call of the protocol reports a failure status.\<close>

definition dwn_send_fails :: "MemoryNode Dwn" where
  "dwn_send_fails =
     memoryDwn\<lparr> protocol_send :=
       (\<lambda>p did n. (\<lparr> status_code = 401, status_detail = ''Unauthorized'' \<rparr>, n)) \<rparr>"

text \<open>Two configured manifests with different ids.\<close>

definition twoManifestOptions :: "nat DcxOptions" where
  "twoManifestOptions = mk_options [] [] [manifestA, manifestB] []"

text \<open>The manifests as \<open>createManifestRecord\<close> writes them, with the agent as issuer.\<close>

definition patchedA :: CredentialManifest where
  "patchedA = manifestA\<lparr>manifest_issuer := (manifest_issuer manifestA)\<lparr>issuer_id := agentDid_uri exampleEnv\<rparr>\<rparr>"

definition patchedB :: CredentialManifest where
  "patchedB = manifestB\<lparr>manifest_issuer := (manifest_issuer manifestB)\<lparr>issuer_id := agentDid_uri exampleEnv\<rparr>\<rparr>"

text \<open>The ids of the manifests held by the records of a node, in order.\<close>

definition manifest_ids_on :: "MemoryNode \<Rightarrow> string list" where
  "manifest_ids_on n =
     map (\<lambda>r. case record_data r of Inl e \<Rightarrow> ''unreadable'' | Inr m \<Rightarrow> manifest_id m) (node_records n)"

text \<open>The node after a first, successful run of the setup on the empty node.\<close>

definition nodeAfterFirstSetup :: MemoryNode where
  "nodeAfterFirstSetup =
     \<lparr> node_protocols = [issuer_definition exampleEnv],
       node_records =
         [\<lparr> record_id = ''record-'', record_data = Inr patchedA \<rparr>,
          \<lparr> record_id = ''record-i'', record_data = Inr patchedB \<rparr>] \<rparr>"

text \<open>
  A node that only counts the calls made to it; a record created gets the count as id.
\<close>

definition counterDwn :: "nat Dwn" where
  "counterDwn =
     \<lparr> protocols_query = (\<lambda>uri n. ((status_ok, Some []), Suc n)),
       protocols_configure = (\<lambda>d n. ((status_accepted, Some d), Suc n)),
       protocol_send = (\<lambda>p did n. (status_accepted, Suc n)),
       records_query = (\<lambda>n. ((status_ok, Some []), Suc n)),
       records_read = (\<lambda>rid n. ((status_ok, None), Suc n)),
       records_create =
         (\<lambda>m n. ((status_accepted,
                    Some \<lparr> record_id = ''record-'' @ replicate n (CHR ''i''), record_data = Inr m \<rparr>),
                   Suc n)),
       record_send = (\<lambda>r n. (status_accepted, Suc n)) \<rparr>"

text \<open>
  The counting node with two failures: the send of the first record created is refused
  (401), and the creation of \<^verbatim>\<open>EXAMPLE-MANIFEST\<close> fails (500).
\<close>

definition dwn_two_failures :: "nat Dwn" where
  "dwn_two_failures =
     counterDwn
       \<lparr> records_create :=
           (\<lambda>m n. if manifest_id m = ''EXAMPLE-MANIFEST''
                   then ((\<lparr> status_code = 500, status_detail = ''Internal Server Error'' \<rparr>, None), Suc n)
                   else records_create counterDwn m n),
         record_send :=
           (\<lambda>r n. if record_id r = ''record-''
                   then (\<lparr> status_code = 401, status_detail = ''Unauthorized'' \<rparr>, Suc n)
                   else (status_accepted, Suc n)) \<rparr>"

text \<open>
  Two records on the memory node: the first holds data that does not parse, the id of the
  second is unknown to the node.
\<close>

definition unparsableRecord :: DwnRecord where
  "unparsableRecord = \<lparr> record_id = ''record-'', record_data = Inl (LibraryError ''invalid json'') \<rparr>"

definition unknownRecord :: DwnRecord where
  "unknownRecord = \<lparr> record_id = ''no-such-record'', record_data = Inl (LibraryError ''no data'') \<rparr>"

definition nodeWithUnparsable :: MemoryNode where
  "nodeWithUnparsable = \<lparr> node_protocols = [], node_records = [unparsableRecord] \<rparr>"

section \<open>Handler registry: properties\<close>

lemma findHandler_first_match:
  assumes "\<not> list_ex (\<lambda>h. sh_id h = ident) pre" and "sh_id h = ident"
  shows "findHandler (opts\<lparr>handlers := pre @ h # post\<rparr>) ident staticHandler = sh_handler h"
proof -
  have "find (\<lambda>s. sh_id s = ident) (pre @ h # post) = Some h"
    using assms by (induction pre) auto
  then show ?thesis by (simp add: findHandler_def)
qed

lemma findHandler_no_match:
  assumes "\<not> list_ex (\<lambda>h. sh_id h = ident) (handlers opts)"
  shows "findHandler opts ident staticHandler = staticHandler"
proof -
  have "find (\<lambda>s. sh_id s = ident) (handlers opts) = None"
    using assms by (simp add: find_None_iff list_ex_iff)
  then show ?thesis by (simp add: findHandler_def)
qed

text \<open>
  C10. When the handler list holds two or more entries with the requested operation id,
  \<open>findHandler\<close> returns the handler of the first of them in list order (whatever
  comes after it); when no entry has the id, it returns the built-in default unchanged.
\<close>

theorem C10_findHandler_first_or_default:
  "(\<not> list_ex (\<lambda>s. sh_id s = ident) pre \<and> sh_id h = ident \<and> sh_id h' = ident \<longrightarrow>
      findHandler (opts\<lparr>handlers := pre @ h # mid @ h' # post\<rparr>) ident staticHandler = sh_handler h)
   \<and> (\<not> list_ex (\<lambda>s. sh_id s = ident) (handlers opts) \<longrightarrow>
      findHandler opts ident staticHandler = staticHandler)"
  using findHandler_first_match [where ident = ident and pre = pre and h = h and opts = opts
      and post = "mid @ h' # post" and staticHandler = staticHandler]
    findHandler_no_match [where ident = ident and opts = opts and staticHandler = staticHandler]
  by blast

theorem C10_findHandler_witness:
  "findHandler (mk_options
       [\<lparr> sh_id = ''selectCredentials'', sh_handler = (0::nat) \<rparr>,
        \<lparr> sh_id = ''issueCredential'', sh_handler = 1 \<rparr>,
        \<lparr> sh_id = ''verifyCredentials'', sh_handler = 2 \<rparr>,
        \<lparr> sh_id = ''issueCredential'', sh_handler = 3 \<rparr>] [] [] [])
     ''issueCredential'' 9 = 1
   \<and> findHandler (mk_options
       [\<lparr> sh_id = ''selectCredentials'', sh_handler = (0::nat) \<rparr>] [] [] [])
     ''requestCredential'' 9 = 9"
proof -
  let ?h0 = "\<lparr> sh_id = ''selectCredentials'', sh_handler = (0::nat) \<rparr>"
  let ?h1 = "\<lparr> sh_id = ''issueCredential'', sh_handler = (1::nat) \<rparr>"
  let ?h2 = "\<lparr> sh_id = ''verifyCredentials'', sh_handler = (2::nat) \<rparr>"
  let ?h3 = "\<lparr> sh_id = ''issueCredential'', sh_handler = (3::nat) \<rparr>"
  have a: "findHandler ((mk_options [] [] [] [])\<lparr>handlers := [?h0] @ ?h1 # [?h2] @ ?h3 # []\<rparr>)
      ''issueCredential'' 9 = sh_handler ?h1"
    using C10_findHandler_first_or_default
      [where ident = "''issueCredential''" and pre = "[?h0]" and h = ?h1 and h' = ?h3
        and opts = "mk_options [] [] [] []" and mid = "[?h2]" and post = "[]" and staticHandler = 9]
    by simp
  have b: "findHandler (mk_options [?h0] [] [] []) ''requestCredential'' 9 = 9"
    using C10_findHandler_first_or_default
      [where ident = "''requestCredential''" and pre = "[]" and h = ?h1 and h' = ?h3
        and opts = "mk_options [?h0] [] [] []" and mid = "[]" and post = "[]" and staticHandler = 9]
    by (simp add: mk_options_def)
  from a b show ?thesis by (simp add: mk_options_def)
qed

section \<open>Manifest filtering: properties\<close>

lemma filterRecords_char:
  "filterRecords opts existing =
     filter (\<lambda>m. list_ex (\<lambda>e. manifest_id m \<noteq> manifest_id e) existing) (manifests opts)"
  unfolding filterRecords_def
  by (rule filter_cong) (auto simp: find_None_iff list_ex_iff)

text \<open>
  C1. The claim says that \<open>filterRecords\<close> returns the configured manifests whose id no
  existing manifest has. The source keeps a configured manifest when some existing
  manifest has a different id: with \<open>manifestA\<close> configured and both \<open>manifestA\<close> and
  \<open>manifestB\<close> on the node, it reports \<open>manifestA\<close> as missing, where the set difference
  of the specification is empty; and against an empty list of existing manifests it
  reports nothing as missing.
\<close>

theorem C1_filterRecords_keeps_existing:
  "filterRecords (mk_options ([] :: nat ServerHandler list) [] [manifestA] []) [manifestA, manifestB] = [manifestA]
   \<and> computeMissing_spec [manifestA] [manifestA, manifestB] = []
   \<and> filterRecords (mk_options ([] :: nat ServerHandler list) [] [manifestA, manifestB] []) [] = []
   \<and> computeMissing_spec [manifestA, manifestB] [] = [manifestA, manifestB]"
  by (simp add: filterRecords_def computeMissing_spec_def mk_options_def manifestA_def manifestB_def
      mk_manifest_def)

section \<open>Credential verification: properties\<close>

lemma verifyEach_fst_tr:
  "fst (verifyEach L opts cfg sd ts acc tr) = fst (verifyEach L opts cfg sd ts acc tr')"
  by (induction ts arbitrary: acc tr tr')
     (auto simp: Let_def split: sum.splits if_splits option.splits)

lemma verifyEach_kept:
  assumes "kept L opts cfg sd t"
  shows "fst (verifyEach L opts cfg sd (t # ts) acc tr)
       = fst (verifyEach L opts cfg sd ts (acc @ [projr (parseJwt L t)]) tr)"
proof -
  have eq: "\<And>acc' x. fst (verifyEach L opts cfg sd ts acc' (tr @ x)) = fst (verifyEach L opts cfg sd ts acc' tr)"
    by (rule verifyEach_fst_tr)
  from assms show ?thesis
    by (auto simp: kept_def Objects_isEmpty_def Let_def eq split: sum.splits option.splits)
qed

lemma verifyEach_not_kept:
  assumes "\<not> kept L opts cfg sd t"
    and "fst (verifyEach L opts cfg sd (t # ts) acc tr) = Inr out"
  shows "fst (verifyEach L opts cfg sd ts acc tr) = Inr out"
proof -
  have eq: "\<And>acc' x. fst (verifyEach L opts cfg sd ts acc' (tr @ x)) = fst (verifyEach L opts cfg sd ts acc' tr)"
    by (rule verifyEach_fst_tr)
  from assms show ?thesis
    by (auto simp: kept_def Objects_isEmpty_def Let_def eq split: sum.splits option.splits if_splits)
qed

lemma verifyEach_result:
  "fst (verifyEach L opts cfg sd ts acc tr) = Inr out \<Longrightarrow>
     out = acc @ map (\<lambda>t. projr (parseJwt L t)) (filter (kept L opts cfg sd) ts)"
proof (induction ts arbitrary: acc)
  case Nil
  then show ?case by simp
next
  case (Cons t ts)
  show ?case
  proof (cases "kept L opts cfg sd t")
    case True
    with Cons.prems have "fst (verifyEach L opts cfg sd ts (acc @ [projr (parseJwt L t)]) tr) = Inr out"
      by (simp only: verifyEach_kept)
    from Cons.IH [OF this] True show ?thesis by simp
  next
    case False
    from verifyEach_not_kept [OF False Cons.prems] have "fst (verifyEach L opts cfg sd ts acc tr) = Inr out" .
    from Cons.IH [OF this] False show ?thesis by simp
  qed
qed

lemma verifyEach_trace_prefix:
  "\<exists>more. snd (verifyEach L opts cfg sd ts acc tr) = tr @ more"
proof (induction ts arbitrary: acc tr)
  case Nil
  then show ?case by simp
next
  case (Cons t ts)
  show ?case
  proof (cases "parseJwt L t")
    case (Inl e)
    then show ?thesis by simp
  next
    case (Inr vc)
    then show ?thesis
      using Cons.IH [of acc "tr @ [CallParseJwt t]"]
        Cons.IH [of acc "tr @ [CallParseJwt t, CallVerify t]"]
        Cons.IH [of "acc @ [vc]" "tr @ [CallParseJwt t, CallVerify t]"]
      by (auto simp: Let_def split: sum.splits)
  qed
qed

lemma verifyEach_no_verify:
  assumes u: "parseJwt L u = Inr vc"
    and untrusted: "vc_issuer vc \<notin> set (map issuer_id (issuers opts @ DCX_INPUT_ISSUERS cfg))"
  shows "CallVerify u \<notin> set tr \<Longrightarrow> CallVerify u \<notin> set (snd (verifyEach L opts cfg sd ts acc tr))"
proof (induction ts arbitrary: acc tr)
  case Nil
  then show ?case by simp
next
  case (Cons t ts)
  show ?case
  proof (cases "parseJwt L t")
    case (Inl e)
    with Cons.prems show ?thesis by simp
  next
    case (Inr vc')
    let ?ids = "map issuer_id (issuers opts @ DCX_INPUT_ISSUERS cfg)"
    show ?thesis
    proof (cases "vc_subject vc' \<noteq> sd \<or> vc_issuer vc' \<notin> set ?ids")
      case True
      have "CallVerify u \<notin> set (tr @ [CallParseJwt t])"
        using Cons.prems by simp
      from Cons.IH [OF this] True Inr show ?thesis
        by (auto simp: Let_def)
    next
      case False
      with Inr u untrusted have "t \<noteq> u" by auto
      with Cons.prems have "CallVerify u \<notin> set (tr @ [CallParseJwt t, CallVerify t])"
        by simp
      from Cons.IH [OF this] False Inr Cons.prems \<open>t \<noteq> u\<close> show ?thesis
        by (auto simp: Let_def split: sum.splits)
    qed
  qed
qed

lemma verifyCredentials_result:
  assumes "fst (verifyCredentials L opts cfg vcJwts m sd) = Inr out"
  shows "out = map (\<lambda>t. projr (parseJwt L t)) (filter (kept L opts cfg sd) vcJwts)"
proof -
  from assms have "fst (verifyEach L opts cfg sd vcJwts []
      [CallSatisfies vcJwts (presentation_definition m)]) = Inr out"
    by (simp add: verifyCredentials_def split: option.splits)
  from verifyEach_result [OF this] show ?thesis by simp
qed

lemma kept_subject:
  "kept L opts cfg sd t \<Longrightarrow> vc_subject (projr (parseJwt L t)) = sd"
  by (auto simp: kept_def split: sum.splits)

lemma kept_issuer:
  "kept L opts cfg sd t \<Longrightarrow>
     vc_issuer (projr (parseJwt L t)) \<in> set (map issuer_id (issuers opts @ DCX_INPUT_ISSUERS cfg))"
  by (auto simp: kept_def split: sum.splits)

lemma verifyEach_drop_mismatch:
  assumes "parseJwt L t' = Inr vc'" and "vc_subject vc' \<noteq> sd"
  shows "fst (verifyEach L opts cfg sd (pre @ t' # post) acc tr)
       = fst (verifyEach L opts cfg sd (pre @ post) acc tr)"
proof (induction pre arbitrary: acc tr)
  case Nil
  have "fst (verifyEach L opts cfg sd post acc (tr @ [CallParseJwt t'])) = fst (verifyEach L opts cfg sd post acc tr)"
    by (rule verifyEach_fst_tr)
  with assms show ?case by simp
next
  case (Cons p pre)
  show ?case
    by (auto simp: Let_def Cons.IH split: sum.splits)
qed

lemma verifyEach_verify_irrelevant:
  assumes u: "parseJwt L u = Inr vc"
    and untrusted: "vc_issuer vc \<notin> set (map issuer_id (issuers opts @ DCX_INPUT_ISSUERS cfg))"
  shows "verifyEach (L\<lparr>vc_verify := (vc_verify L)(u := r)\<rparr>) opts cfg sd ts acc tr
       = verifyEach L opts cfg sd ts acc tr"
proof (induction ts arbitrary: acc tr)
  case Nil
  then show ?case by simp
next
  case (Cons t ts)
  show ?case
  proof (cases "t = u")
    case True
    with u untrusted Cons.IH show ?thesis by (simp add: Let_def)
  next
    case False
    with Cons.IH show ?thesis by (simp add: Let_def split: sum.splits)
  qed
qed

lemma verifyEach_skip:
  assumes "\<not> kept L opts cfg sd t" and "\<not> throws L opts cfg sd t"
  shows "fst (verifyEach L opts cfg sd (t # ts) acc tr) = fst (verifyEach L opts cfg sd ts acc tr)"
proof -
  have eq: "\<And>acc' x. fst (verifyEach L opts cfg sd ts acc' (tr @ x)) = fst (verifyEach L opts cfg sd ts acc' tr)"
    by (rule verifyEach_fst_tr)
  from assms show ?thesis
    by (auto simp: kept_def throws_def Objects_isEmpty_def Let_def eq split: sum.splits option.splits)
qed

lemma verifyEach_throws:
  assumes "throws L opts cfg sd t"
  shows "isl (fst (verifyEach L opts cfg sd (t # ts) acc tr))"
  using assms by (auto simp: throws_def Let_def split: sum.splits)

lemma kept_not_throws:
  "kept L opts cfg sd t \<Longrightarrow> \<not> throws L opts cfg sd t"
  by (auto simp: kept_def throws_def split: sum.splits option.splits)

lemma verifyEach_isl:
  "isl (fst (verifyEach L opts cfg sd ts acc tr)) = list_ex (throws L opts cfg sd) ts"
proof (induction ts arbitrary: acc)
  case Nil
  then show ?case by simp
next
  case (Cons t ts)
  show ?case
  proof (cases "throws L opts cfg sd t")
    case True
    with verifyEach_throws [OF True] show ?thesis by simp
  next
    case False
    show ?thesis
    proof (cases "kept L opts cfg sd t")
      case True
      with False Cons.IH show ?thesis by (simp add: verifyEach_kept del: verifyEach.simps)
    next
      case nk: False
      from verifyEach_skip [OF nk False] False Cons.IH show ?thesis
        by (simp del: verifyEach.simps)
    qed
  qed
qed

lemma verifyEach_returns:
  assumes "\<not> list_ex (throws L opts cfg sd) ts"
  shows "fst (verifyEach L opts cfg sd ts acc tr)
       = Inr (acc @ map (\<lambda>t. projr (parseJwt L t)) (filter (kept L opts cfg sd) ts))"
proof -
  from assms have "\<not> isl (fst (verifyEach L opts cfg sd ts acc tr))"
    by (simp add: verifyEach_isl)
  then obtain out where out: "fst (verifyEach L opts cfg sd ts acc tr) = Inr out"
    by (cases "fst (verifyEach L opts cfg sd ts acc tr)") auto
  from verifyEach_result [OF out] out show ?thesis by simp
qed

lemma verifyCredentials_returns:
  assumes "satisfiesPresentationDefinition L vcJwts (presentation_definition m) = None"
    and "\<not> list_ex (throws L opts cfg sd) vcJwts"
  shows "fst (verifyCredentials L opts cfg vcJwts m sd)
       = Inr (map (\<lambda>t. projr (parseJwt L t)) (filter (kept L opts cfg sd) vcJwts))"
  using assms verifyEach_returns [of L opts cfg sd vcJwts "[]"]
  by (simp add: verifyCredentials_def)

lemma verifyEach_drop:
  assumes "\<not> kept L opts cfg sd u" and "\<not> throws L opts cfg sd u"
  shows "fst (verifyEach L opts cfg sd (pre @ u # post) acc tr)
       = fst (verifyEach L opts cfg sd (pre @ post) acc tr)"
proof (induction pre arbitrary: acc tr)
  case Nil
  from verifyEach_skip [OF assms] show ?case by simp
next
  case (Cons p pre)
  show ?case
    by (auto simp: Let_def Cons.IH split: sum.splits)
qed

lemma untrusted_not_kept_nor_throws:
  assumes "parseJwt L u = Inr vc"
    and "vc_issuer vc \<notin> set (map issuer_id (issuers opts @ DCX_INPUT_ISSUERS cfg))"
  shows "\<not> kept L opts cfg sd u" and "\<not> throws L opts cfg sd u"
  using assms by (auto simp: kept_def throws_def)

lemma verifyCredentials_drop_untrusted:
  assumes "parseJwt L u = Inr vc"
    and "vc_issuer vc \<notin> set (map issuer_id (issuers opts @ DCX_INPUT_ISSUERS cfg))"
    and "satisfiesPresentationDefinition L (pre @ u # post) (presentation_definition m) = None"
    and "satisfiesPresentationDefinition L (pre @ post) (presentation_definition m) = None"
  shows "fst (verifyCredentials L opts cfg (pre @ u # post) m sd)
       = fst (verifyCredentials L opts cfg (pre @ post) m sd)"
proof -
  have "fst (verifyEach L opts cfg sd (pre @ u # post) []
        [CallSatisfies (pre @ u # post) (presentation_definition m)])
      = fst (verifyEach L opts cfg sd (pre @ post) [] [CallSatisfies (pre @ u # post) (presentation_definition m)])"
    using verifyEach_drop [OF untrusted_not_kept_nor_throws [OF assms(1,2)]] .
  also have "\<dots> = fst (verifyEach L opts cfg sd (pre @ post) [] [CallSatisfies (pre @ post) (presentation_definition m)])"
    by (rule verifyEach_fst_tr)
  finally show ?thesis
    using assms(3,4) by (simp add: verifyCredentials_def)
qed

lemmas example_defs =
  exampleLib_def example_parseJwt_def example_verify_def mk_vc_def exampleOptions_def
  mk_options_def exampleConfig_def manifestA_def manifestB_def mk_manifest_def

text \<open>
  C3. Whenever \<open>verifyCredentials\<close> returns a list, every credential in it has the given
  \<open>subjectDid\<close> as subject. A token that parses to another subject is dropped and raises
  nothing: it is neither kept nor a token on which the loop throws, and with the
  presentation definition satisfied by both lists, the result on a list holding the token
  is the result on the list without it. Replacing a token that is verified (it is kept:
  the given subject, an allowed issuer, a non-empty verification) by a token that parses
  to another subject shortens the returned list by exactly one. And the list is returned:
  when the presentation definition is satisfied and the library throws on no token, the
  result is the list of the kept tokens' credentials, in input order.
\<close>

theorem C3_subject_mismatch_dropped:
  "(fst (verifyCredentials L opts cfg vcJwts m sd) = Inr out \<longrightarrow>
      list_all (\<lambda>vc. vc_subject vc = sd) out)
   \<and> (parseJwt L t' = Inr vc' \<and> vc_subject vc' \<noteq> sd
        \<and> satisfiesPresentationDefinition L (pre @ t' # post) (presentation_definition m) = None
        \<and> satisfiesPresentationDefinition L (pre @ post) (presentation_definition m) = None \<longrightarrow>
      fst (verifyCredentials L opts cfg (pre @ t' # post) m sd)
        = fst (verifyCredentials L opts cfg (pre @ post) m sd))
   \<and> (kept L opts cfg sd t \<and> parseJwt L t' = Inr vc' \<and> vc_subject vc' \<noteq> sd
        \<and> fst (verifyCredentials L opts cfg (pre @ t # post) m sd) = Inr out1
        \<and> fst (verifyCredentials L opts cfg (pre @ t' # post) m sd) = Inr out2 \<longrightarrow>
      length out1 = length out2 + 1)
   \<and> (satisfiesPresentationDefinition L vcJwts (presentation_definition m) = None
        \<and> \<not> list_ex (throws L opts cfg sd) vcJwts \<longrightarrow>
      fst (verifyCredentials L opts cfg vcJwts m sd)
        = Inr (map (\<lambda>t. projr (parseJwt L t)) (filter (kept L opts cfg sd) vcJwts)))
   \<and> (parseJwt L t' = Inr vc' \<and> vc_subject vc' \<noteq> sd \<longrightarrow>
      \<not> kept L opts cfg sd t' \<and> \<not> throws L opts cfg sd t')"
proof (intro conjI impI)
  assume "fst (verifyCredentials L opts cfg vcJwts m sd) = Inr out"
  from verifyCredentials_result [OF this]
  show "list_all (\<lambda>vc. vc_subject vc = sd) out"
    by (auto simp: list_all_iff kept_subject)
next
  assume a: "parseJwt L t' = Inr vc' \<and> vc_subject vc' \<noteq> sd
        \<and> satisfiesPresentationDefinition L (pre @ t' # post) (presentation_definition m) = None
        \<and> satisfiesPresentationDefinition L (pre @ post) (presentation_definition m) = None"
  then have "fst (verifyEach L opts cfg sd (pre @ t' # post) []
        [CallSatisfies (pre @ t' # post) (presentation_definition m)])
      = fst (verifyEach L opts cfg sd (pre @ post) [] [CallSatisfies (pre @ t' # post) (presentation_definition m)])"
    using verifyEach_drop_mismatch by blast
  also have "\<dots> = fst (verifyEach L opts cfg sd (pre @ post) [] [CallSatisfies (pre @ post) (presentation_definition m)])"
    by (rule verifyEach_fst_tr)
  finally show "fst (verifyCredentials L opts cfg (pre @ t' # post) m sd)
        = fst (verifyCredentials L opts cfg (pre @ post) m sd)"
    using a by (simp add: verifyCredentials_def)
next
  assume a: "kept L opts cfg sd t \<and> parseJwt L t' = Inr vc' \<and> vc_subject vc' \<noteq> sd
        \<and> fst (verifyCredentials L opts cfg (pre @ t # post) m sd) = Inr out1
        \<and> fst (verifyCredentials L opts cfg (pre @ t' # post) m sd) = Inr out2"
  then have nk: "\<not> kept L opts cfg sd t'"
    by (auto simp: kept_def)
  from a have o1: "out1 = map (\<lambda>t. projr (parseJwt L t)) (filter (kept L opts cfg sd) (pre @ t # post))"
    using verifyCredentials_result by blast
  from a have o2: "out2 = map (\<lambda>t. projr (parseJwt L t)) (filter (kept L opts cfg sd) (pre @ t' # post))"
    using verifyCredentials_result by blast
  from o1 o2 nk a show "length out1 = length out2 + 1"
    by simp
next
  assume "satisfiesPresentationDefinition L vcJwts (presentation_definition m) = None
        \<and> \<not> list_ex (throws L opts cfg sd) vcJwts"
  then show "fst (verifyCredentials L opts cfg vcJwts m sd)
        = Inr (map (\<lambda>t. projr (parseJwt L t)) (filter (kept L opts cfg sd) vcJwts))"
    using verifyCredentials_returns by blast
next
  assume a: "parseJwt L t' = Inr vc' \<and> vc_subject vc' \<noteq> sd"
  then show "\<not> kept L opts cfg sd t'" by (auto simp: kept_def)
  from a show "\<not> throws L opts cfg sd t'" by (auto simp: throws_def)
qed

theorem C3_subject_mismatch_witness:
  "fst (verifyCredentials exampleLib exampleOptions exampleConfig
         [''jwt-configured'', ''jwt-ok'', ''jwt-untrusted''] manifestA ''did:x:B'')
     = Inr [mk_vc ''did:x:configured'' ''did:x:B'', mk_vc ''did:x:trusted'' ''did:x:B'']
   \<and> list_all (\<lambda>vc. vc_subject vc = ''did:x:B'')
         [mk_vc ''did:x:configured'' ''did:x:B'', mk_vc ''did:x:trusted'' ''did:x:B'']
   \<and> fst (verifyCredentials exampleLib exampleOptions exampleConfig
         [''jwt-configured'', ''jwt-other-subject'', ''jwt-untrusted''] manifestA ''did:x:B'')
     = fst (verifyCredentials exampleLib exampleOptions exampleConfig
         [''jwt-configured'', ''jwt-untrusted''] manifestA ''did:x:B'')
   \<and> fst (verifyCredentials exampleLib exampleOptions exampleConfig
         [''jwt-configured'', ''jwt-other-subject'', ''jwt-untrusted''] manifestA ''did:x:B'')
     = Inr [mk_vc ''did:x:configured'' ''did:x:B'']
   \<and> length [mk_vc ''did:x:configured'' ''did:x:B'', mk_vc ''did:x:trusted'' ''did:x:B'']
     = length [mk_vc ''did:x:configured'' ''did:x:B''] + 1
   \<and> fst (verifyCredentials exampleLib exampleOptions exampleConfig
         [''jwt-configured'', ''jwt-other-subject'', ''jwt-untrusted''] manifestA ''did:x:B'')
     = Inr (map (\<lambda>t. projr (parseJwt exampleLib t))
         (filter (kept exampleLib exampleOptions exampleConfig ''did:x:B'')
            [''jwt-configured'', ''jwt-other-subject'', ''jwt-untrusted'']))
   \<and> \<not> kept exampleLib exampleOptions exampleConfig ''did:x:B'' ''jwt-other-subject''
   \<and> \<not> throws exampleLib exampleOptions exampleConfig ''did:x:B'' ''jwt-other-subject''"
proof -
  let ?run = "\<lambda>ts. fst (verifyCredentials exampleLib exampleOptions exampleConfig ts manifestA ''did:x:B'')"
  let ?a = "mk_vc ''did:x:configured'' ''did:x:B''"
  let ?b = "mk_vc ''did:x:trusted'' ''did:x:B''"
  let ?ts = "[''jwt-configured'', ''jwt-other-subject'', ''jwt-untrusted'']"
  have r1: "?run [''jwt-configured'', ''jwt-ok'', ''jwt-untrusted''] = Inr [?a, ?b]"
    by (simp add: verifyCredentials_def example_defs Objects_isEmpty_def)
  have r2: "?run ?ts = Inr [?a]"
    by (simp add: verifyCredentials_def example_defs Objects_isEmpty_def)
  have p: "parseJwt exampleLib ''jwt-other-subject'' = Inr (mk_vc ''did:x:trusted'' ''did:x:A'')"
    "vc_subject (mk_vc ''did:x:trusted'' ''did:x:A'') \<noteq> ''did:x:B''"
    by (simp_all add: example_defs)
  have s: "satisfiesPresentationDefinition exampleLib
        ([''jwt-configured''] @ ''jwt-other-subject'' # [''jwt-untrusted'']) (presentation_definition manifestA) = None"
      "satisfiesPresentationDefinition exampleLib
        ([''jwt-configured''] @ [''jwt-untrusted'']) (presentation_definition manifestA) = None"
    by (simp_all add: example_defs)
  have k: "kept exampleLib exampleOptions exampleConfig ''did:x:B'' ''jwt-ok''"
    by (simp add: kept_def example_defs)
  have nt: "\<not> list_ex (throws exampleLib exampleOptions exampleConfig ''did:x:B'') ?ts"
    by (simp add: throws_def example_defs)
  note inst = C3_subject_mismatch_dropped [where L = exampleLib and opts = exampleOptions
      and cfg = exampleConfig and m = manifestA and sd = "''did:x:B''"
      and vcJwts = "[''jwt-configured'', ''jwt-ok'', ''jwt-untrusted'']" and out = "[?a, ?b]"
      and pre = "[''jwt-configured'']" and post = "[''jwt-untrusted'']"
      and t = "''jwt-ok''" and t' = "''jwt-other-subject''" and vc' = "mk_vc ''did:x:trusted'' ''did:x:A''"
      and ?out1.0 = "[?a, ?b]" and ?out2.0 = "[?a]"]
  note inst' = C3_subject_mismatch_dropped [where L = exampleLib and opts = exampleOptions
      and cfg = exampleConfig and m = manifestA and sd = "''did:x:B''" and vcJwts = ?ts]
  from inst r1 have c1: "list_all (\<lambda>vc. vc_subject vc = ''did:x:B'') [?a, ?b]"
    by blast
  from inst p s have c2: "?run ([''jwt-configured''] @ ''jwt-other-subject'' # [''jwt-untrusted''])
      = ?run ([''jwt-configured''] @ [''jwt-untrusted''])"
    by blast
  from inst k p r1 r2 have c3: "length [?a, ?b] = length [?a] + 1"
    by simp
  from inst' s(1) nt have c4: "?run ?ts
      = Inr (map (\<lambda>t. projr (parseJwt exampleLib t))
         (filter (kept exampleLib exampleOptions exampleConfig ''did:x:B'') ?ts))"
    by simp
  from inst p have c5: "\<not> kept exampleLib exampleOptions exampleConfig ''did:x:B'' ''jwt-other-subject''
      \<and> \<not> throws exampleLib exampleOptions exampleConfig ''did:x:B'' ''jwt-other-subject''"
    by blast
  from r1 r2 c1 c2 c3 c4 c5 show ?thesis by simp
qed

text \<open>
  C4. A returned list is the input list, in input order, restricted to the kept tokens
  (each mapped to its parsed credential), and every credential in it has an issuer among
  the configured issuers of the instance or the static trusted issuers. A token whose
  parsed issuer is in neither list is dropped, whatever its verification would give: it
  is never kept and never makes the loop throw, \<^verbatim>\<open>VerifiableCredential.verify\<close> is never
  called on it, the whole run (result and calls) stays the same whatever that
  verification would have returned or thrown, and with the presentation definition
  satisfied by both lists the result on a list holding the token is the result on the
  list without it. When the presentation definition is satisfied and the library throws
  on no token, the list of the kept tokens' credentials is returned.
\<close>

theorem C4_untrusted_issuer_dropped:
  "(fst (verifyCredentials L opts cfg vcJwts m sd) = Inr out \<longrightarrow>
      out = map (\<lambda>t. projr (parseJwt L t)) (filter (kept L opts cfg sd) vcJwts)
      \<and> list_all (\<lambda>c. vc_issuer c \<in> set (map issuer_id (issuers opts @ DCX_INPUT_ISSUERS cfg))) out)
   \<and> (parseJwt L u = Inr vc
        \<and> vc_issuer vc \<notin> set (map issuer_id (issuers opts @ DCX_INPUT_ISSUERS cfg)) \<longrightarrow>
      \<not> kept L opts cfg sd u
      \<and> \<not> throws L opts cfg sd u
      \<and> CallVerify u \<notin> set (snd (verifyCredentials L opts cfg vcJwts m sd))
      \<and> verifyCredentials (L\<lparr>vc_verify := (vc_verify L)(u := r)\<rparr>) opts cfg vcJwts m sd
          = verifyCredentials L opts cfg vcJwts m sd)
   \<and> (parseJwt L u = Inr vc
        \<and> vc_issuer vc \<notin> set (map issuer_id (issuers opts @ DCX_INPUT_ISSUERS cfg))
        \<and> satisfiesPresentationDefinition L (pre @ u # post) (presentation_definition m) = None
        \<and> satisfiesPresentationDefinition L (pre @ post) (presentation_definition m) = None \<longrightarrow>
      fst (verifyCredentials L opts cfg (pre @ u # post) m sd)
        = fst (verifyCredentials L opts cfg (pre @ post) m sd))
   \<and> (satisfiesPresentationDefinition L vcJwts (presentation_definition m) = None
        \<and> \<not> list_ex (throws L opts cfg sd) vcJwts \<longrightarrow>
      fst (verifyCredentials L opts cfg vcJwts m sd)
        = Inr (map (\<lambda>t. projr (parseJwt L t)) (filter (kept L opts cfg sd) vcJwts)))"
proof (intro conjI impI)
  assume a: "fst (verifyCredentials L opts cfg vcJwts m sd) = Inr out"
  from verifyCredentials_result [OF a]
  show o: "out = map (\<lambda>t. projr (parseJwt L t)) (filter (kept L opts cfg sd) vcJwts)" .
  show "list_all (\<lambda>c. vc_issuer c \<in> set (map issuer_id (issuers opts @ DCX_INPUT_ISSUERS cfg))) out"
    unfolding o list_all_iff using kept_issuer [of L opts cfg sd] by auto
next
  assume a: "parseJwt L u = Inr vc
        \<and> vc_issuer vc \<notin> set (map issuer_id (issuers opts @ DCX_INPUT_ISSUERS cfg))"
  then show "\<not> kept L opts cfg sd u"
    by (auto simp: kept_def)
  from a show "\<not> throws L opts cfg sd u"
    by (auto simp: throws_def)
  from a show "CallVerify u \<notin> set (snd (verifyCredentials L opts cfg vcJwts m sd))"
    using verifyEach_no_verify [of L u vc opts cfg "[CallSatisfies vcJwts (presentation_definition m)]" sd vcJwts "[]"]
    by (simp add: verifyCredentials_def split: option.splits)
  from a show "verifyCredentials (L\<lparr>vc_verify := (vc_verify L)(u := r)\<rparr>) opts cfg vcJwts m sd
          = verifyCredentials L opts cfg vcJwts m sd"
    using verifyEach_verify_irrelevant [of L u vc opts cfg r sd vcJwts]
    by (simp add: verifyCredentials_def split: option.splits)
next
  assume "parseJwt L u = Inr vc
        \<and> vc_issuer vc \<notin> set (map issuer_id (issuers opts @ DCX_INPUT_ISSUERS cfg))
        \<and> satisfiesPresentationDefinition L (pre @ u # post) (presentation_definition m) = None
        \<and> satisfiesPresentationDefinition L (pre @ post) (presentation_definition m) = None"
  then show "fst (verifyCredentials L opts cfg (pre @ u # post) m sd)
        = fst (verifyCredentials L opts cfg (pre @ post) m sd)"
    using verifyCredentials_drop_untrusted by blast
next
  assume "satisfiesPresentationDefinition L vcJwts (presentation_definition m) = None
        \<and> \<not> list_ex (throws L opts cfg sd) vcJwts"
  then show "fst (verifyCredentials L opts cfg vcJwts m sd)
        = Inr (map (\<lambda>t. projr (parseJwt L t)) (filter (kept L opts cfg sd) vcJwts))"
    using verifyCredentials_returns by blast
qed

theorem C4_untrusted_issuer_witness:
  "fst (verifyCredentials exampleLib exampleOptions exampleConfig
         [''jwt-untrusted'', ''jwt-ok'', ''jwt-bad-signature'', ''jwt-configured''] manifestA ''did:x:B'')
     = Inr [mk_vc ''did:x:trusted'' ''did:x:B'', mk_vc ''did:x:configured'' ''did:x:B'']
   \<and> [mk_vc ''did:x:trusted'' ''did:x:B'', mk_vc ''did:x:configured'' ''did:x:B'']
     = map (\<lambda>t. projr (parseJwt exampleLib t))
         (filter (kept exampleLib exampleOptions exampleConfig ''did:x:B'')
            [''jwt-untrusted'', ''jwt-ok'', ''jwt-bad-signature'', ''jwt-configured''])
   \<and> vc_verify exampleLib ''jwt-untrusted'' = Inr (Some [(''verified'', JBool True)])
   \<and> \<not> kept exampleLib exampleOptions exampleConfig ''did:x:B'' ''jwt-untrusted''
   \<and> \<not> throws exampleLib exampleOptions exampleConfig ''did:x:B'' ''jwt-untrusted''
   \<and> CallVerify ''jwt-untrusted'' \<notin> set (snd (verifyCredentials exampleLib exampleOptions exampleConfig
         [''jwt-untrusted'', ''jwt-ok'', ''jwt-bad-signature'', ''jwt-configured''] manifestA ''did:x:B''))
   \<and> verifyCredentials
         (exampleLib\<lparr>vc_verify := (vc_verify exampleLib)(''jwt-untrusted'' := Inl (LibraryError ''verification threw''))\<rparr>)
         exampleOptions exampleConfig
         [''jwt-untrusted'', ''jwt-ok'', ''jwt-bad-signature'', ''jwt-configured''] manifestA ''did:x:B''
     = verifyCredentials exampleLib exampleOptions exampleConfig
         [''jwt-untrusted'', ''jwt-ok'', ''jwt-bad-signature'', ''jwt-configured''] manifestA ''did:x:B''
   \<and> fst (verifyCredentials exampleLib exampleOptions exampleConfig
         [''jwt-ok'', ''jwt-untrusted'', ''jwt-configured''] manifestA ''did:x:B'')
     = fst (verifyCredentials exampleLib exampleOptions exampleConfig
         [''jwt-ok'', ''jwt-configured''] manifestA ''did:x:B'')
   \<and> fst (verifyCredentials exampleLib exampleOptions exampleConfig
         [''jwt-ok'', ''jwt-configured''] manifestA ''did:x:B'')
     = Inr [mk_vc ''did:x:trusted'' ''did:x:B'', mk_vc ''did:x:configured'' ''did:x:B'']"
proof -
  let ?ts = "[''jwt-untrusted'', ''jwt-ok'', ''jwt-bad-signature'', ''jwt-configured'']"
  let ?out = "[mk_vc ''did:x:trusted'' ''did:x:B'', mk_vc ''did:x:configured'' ''did:x:B'']"
  let ?run = "\<lambda>ts. fst (verifyCredentials exampleLib exampleOptions exampleConfig ts manifestA ''did:x:B'')"
  have r: "?run ?ts = Inr ?out"
    by (simp add: verifyCredentials_def example_defs Objects_isEmpty_def)
  have r': "?run [''jwt-ok'', ''jwt-configured''] = Inr ?out"
    by (simp add: verifyCredentials_def example_defs Objects_isEmpty_def)
  have p: "parseJwt exampleLib ''jwt-untrusted'' = Inr (mk_vc ''did:x:unknown'' ''did:x:B'')"
    "vc_issuer (mk_vc ''did:x:unknown'' ''did:x:B'')
       \<notin> set (map issuer_id (issuers exampleOptions @ DCX_INPUT_ISSUERS exampleConfig))"
    "vc_verify exampleLib ''jwt-untrusted'' = Inr (Some [(''verified'', JBool True)])"
    by (simp_all add: example_defs)
  have s: "satisfiesPresentationDefinition exampleLib ([''jwt-ok''] @ ''jwt-untrusted'' # [''jwt-configured''])
        (presentation_definition manifestA) = None"
    "satisfiesPresentationDefinition exampleLib ([''jwt-ok''] @ [''jwt-configured''])
        (presentation_definition manifestA) = None"
    "satisfiesPresentationDefinition exampleLib ?ts (presentation_definition manifestA) = None"
    by (simp_all add: example_defs)
  have nt: "\<not> list_ex (throws exampleLib exampleOptions exampleConfig ''did:x:B'') ?ts"
    by (simp add: throws_def example_defs)
  note inst = C4_untrusted_issuer_dropped [where L = exampleLib and opts = exampleOptions
      and cfg = exampleConfig and m = manifestA and sd = "''did:x:B''" and vcJwts = ?ts
      and out = ?out and u = "''jwt-untrusted''" and vc = "mk_vc ''did:x:unknown'' ''did:x:B''"
      and r = "Inl (LibraryError ''verification threw'')"
      and pre = "[''jwt-ok'']" and post = "[''jwt-configured'']"]
  from inst r have c1: "?out = map (\<lambda>t. projr (parseJwt exampleLib t))
         (filter (kept exampleLib exampleOptions exampleConfig ''did:x:B'') ?ts)"
    by blast
  from inst p have c2: "\<not> kept exampleLib exampleOptions exampleConfig ''did:x:B'' ''jwt-untrusted''
      \<and> \<not> throws exampleLib exampleOptions exampleConfig ''did:x:B'' ''jwt-untrusted''
      \<and> CallVerify ''jwt-untrusted'' \<notin> set (snd (verifyCredentials exampleLib exampleOptions exampleConfig
           ?ts manifestA ''did:x:B''))
      \<and> verifyCredentials
           (exampleLib\<lparr>vc_verify := (vc_verify exampleLib)(''jwt-untrusted'' := Inl (LibraryError ''verification threw''))\<rparr>)
           exampleOptions exampleConfig ?ts manifestA ''did:x:B''
        = verifyCredentials exampleLib exampleOptions exampleConfig ?ts manifestA ''did:x:B''"
    by blast
  from inst p s have c3: "?run ([''jwt-ok''] @ ''jwt-untrusted'' # [''jwt-configured''])
      = ?run ([''jwt-ok''] @ [''jwt-configured''])"
    by blast
  from inst s(3) nt have c4: "?run ?ts = Inr (map (\<lambda>t. projr (parseJwt exampleLib t))
         (filter (kept exampleLib exampleOptions exampleConfig ''did:x:B'') ?ts))"
    by blast
  from r r' p(3) c1 c2 c3 c4 show ?thesis by simp
qed

text \<open>
  C5. When the presentation definition is not satisfied by the full token list,
  \<open>verifyCredentials\<close> raises that error: no list is returned and the only library call
  made is the satisfaction check, so no token is parsed or verified. In every run the
  satisfaction check is the first call, before any token is processed.
\<close>

theorem C5_unsatisfied_definition_aborts:
  "(satisfiesPresentationDefinition L vcJwts (presentation_definition m) = Some e \<longrightarrow>
      verifyCredentials L opts cfg vcJwts m sd
        = (Inl e, [CallSatisfies vcJwts (presentation_definition m)]))
   \<and> (\<exists>more. snd (verifyCredentials L opts cfg vcJwts m sd)
        = CallSatisfies vcJwts (presentation_definition m) # more)"
proof (intro conjI impI)
  assume "satisfiesPresentationDefinition L vcJwts (presentation_definition m) = Some e"
  then show "verifyCredentials L opts cfg vcJwts m sd
        = (Inl e, [CallSatisfies vcJwts (presentation_definition m)])"
    by (simp add: verifyCredentials_def)
next
  show "\<exists>more. snd (verifyCredentials L opts cfg vcJwts m sd)
        = CallSatisfies vcJwts (presentation_definition m) # more"
    using verifyEach_trace_prefix [of L opts cfg sd vcJwts "[]" "[CallSatisfies vcJwts (presentation_definition m)]"]
    by (auto simp: verifyCredentials_def split: option.splits)
qed

theorem C5_unsatisfied_definition_witness:
  "satisfiesPresentationDefinition rejectingLib [''jwt-ok'', ''jwt-configured''] (presentation_definition manifestA)
     = Some (LibraryError ''presentation definition not satisfied'')
   \<and> verifyCredentials rejectingLib exampleOptions exampleConfig [''jwt-ok'', ''jwt-configured''] manifestA ''did:x:B''
     = (Inl (LibraryError ''presentation definition not satisfied''),
        [CallSatisfies [''jwt-ok'', ''jwt-configured''] (presentation_definition manifestA)])
   \<and> verifyCredentials exampleLib exampleOptions exampleConfig [''jwt-ok'', ''jwt-configured''] manifestA ''did:x:B''
     = (Inr [mk_vc ''did:x:trusted'' ''did:x:B'', mk_vc ''did:x:configured'' ''did:x:B''],
        [CallSatisfies [''jwt-ok'', ''jwt-configured''] (presentation_definition manifestA),
         CallParseJwt ''jwt-ok'', CallVerify ''jwt-ok'',
         CallParseJwt ''jwt-configured'', CallVerify ''jwt-configured''])
   \<and> verifyCredentials exampleLib exampleOptions exampleConfig [] manifestA ''did:x:B''
     = (Inl (LibraryError ''presentation definition not satisfied''),
        [CallSatisfies [] (presentation_definition manifestA)])"
proof -
  let ?ts = "[''jwt-ok'', ''jwt-configured'']"
  have h: "satisfiesPresentationDefinition rejectingLib ?ts (presentation_definition manifestA)
     = Some (LibraryError ''presentation definition not satisfied'')"
    by (simp add: rejectingLib_def)
  have h0: "satisfiesPresentationDefinition exampleLib [] (presentation_definition manifestA)
     = Some (LibraryError ''presentation definition not satisfied'')"
    by (simp add: example_defs)
  have ok: "verifyCredentials exampleLib exampleOptions exampleConfig ?ts manifestA ''did:x:B''
     = (Inr [mk_vc ''did:x:trusted'' ''did:x:B'', mk_vc ''did:x:configured'' ''did:x:B''],
        [CallSatisfies ?ts (presentation_definition manifestA),
         CallParseJwt ''jwt-ok'', CallVerify ''jwt-ok'',
         CallParseJwt ''jwt-configured'', CallVerify ''jwt-configured''])"
    by (simp add: verifyCredentials_def example_defs Objects_isEmpty_def)
  from C5_unsatisfied_definition_aborts [where L = rejectingLib and vcJwts = ?ts and m = manifestA
      and e = "LibraryError ''presentation definition not satisfied''" and opts = exampleOptions
      and cfg = exampleConfig and sd = "''did:x:B''"] h
  have c1: "verifyCredentials rejectingLib exampleOptions exampleConfig ?ts manifestA ''did:x:B''
     = (Inl (LibraryError ''presentation definition not satisfied''),
        [CallSatisfies ?ts (presentation_definition manifestA)])"
    by blast
  from C5_unsatisfied_definition_aborts [where L = exampleLib and vcJwts = "[]" and m = manifestA
      and e = "LibraryError ''presentation definition not satisfied''" and opts = exampleOptions
      and cfg = exampleConfig and sd = "''did:x:B''"] h0
  have c2: "verifyCredentials exampleLib exampleOptions exampleConfig [] manifestA ''did:x:B''
     = (Inl (LibraryError ''presentation definition not satisfied''),
        [CallSatisfies [] (presentation_definition manifestA)])"
    by blast
  from h ok c1 c2 show ?thesis by simp
qed

section \<open>Credential issuance: properties\<close>

lemma issueCredential_no_descriptor:
  "output_descriptors manifest = [] \<Longrightarrow>
     issueCredential L agentDid data subjectDid manifest
       = (Inl (TypeError ''manifestOutputDescriptor is undefined''), [])"
  by (simp add: issueCredential_def)

text \<open>
  C6. For a manifest with at least one output descriptor (the data model has one or
  more), \<open>issueCredential\<close> creates the credential with type = name of descriptor 0,
  subject = \<open>subjectDid\<close>, issuer = the agent's DID and the given data, signs it with the
  agent's DID, and returns a fulfillment whose \<open>descriptor_map\<close> is the single entry
  (id of descriptor 0, \<^verbatim>\<open>jwt_vc\<close>, \<^verbatim>\<open>$.verifiableCredential[0]\<close>). The descriptors after
  the first never matter: the run on \<open>d0 # ds\<close> is the run on \<open>[d0]\<close>.
\<close>

theorem C6_issueCredential_first_descriptor:
  "(output_descriptors manifest = d0 # ds
      \<and> vc_create L \<lparr> create_data = data, create_subject = subjectDid, create_issuer = agentDid,
                       create_type = od_name d0 \<rparr> = Inr vc
      \<and> vc_sign L vc agentDid = Inr signed \<longrightarrow>
      issueCredential L agentDid data subjectDid manifest
        = (Inr \<lparr> fulfillment =
                   \<lparr> descriptor_map =
                       [\<lparr> dm_id = od_id d0, dm_format = ''jwt_vc'', dm_path = ''$.verifiableCredential[0]'' \<rparr>] \<rparr>,
                 verifiableCredential = [signed] \<rparr>,
           [CallCreate \<lparr> create_data = data, create_subject = subjectDid, create_issuer = agentDid,
                         create_type = od_name d0 \<rparr>,
            CallSign vc agentDid]))
   \<and> issueCredential L agentDid data subjectDid (manifest\<lparr>output_descriptors := d0 # ds\<rparr>)
       = issueCredential L agentDid data subjectDid (manifest\<lparr>output_descriptors := [d0]\<rparr>)"
  by (simp add: issueCredential_def)

theorem C6_issueCredential_witness:
  "issueCredential exampleLib ''did:x:issuer-agent'' (JObj [(''level'', JNum 3)]) ''did:x:B''
       (manifestA\<lparr>output_descriptors :=
          [\<lparr> od_id = ''first-output'', od_name = ''FirstCredential'' \<rparr>,
           \<lparr> od_id = ''second-output'', od_name = ''SecondCredential'' \<rparr>]\<rparr>)
     = (Inr \<lparr> fulfillment =
                \<lparr> descriptor_map =
                    [\<lparr> dm_id = ''first-output'', dm_format = ''jwt_vc'', dm_path = ''$.verifiableCredential[0]'' \<rparr>] \<rparr>,
              verifiableCredential = [''signed:FirstCredential:did:x:B:did:x:issuer-agent''] \<rparr>,
        [CallCreate \<lparr> create_data = JObj [(''level'', JNum 3)], create_subject = ''did:x:B'',
                      create_issuer = ''did:x:issuer-agent'', create_type = ''FirstCredential'' \<rparr>,
         CallSign \<lparr> vc_type = ''FirstCredential'', vc_issuer = ''did:x:issuer-agent'',
                    vc_subject = ''did:x:B'', vc_data = JObj [(''level'', JNum 3)] \<rparr>
           ''did:x:issuer-agent''])"
proof -
  let ?d0 = "\<lparr> od_id = ''first-output'', od_name = ''FirstCredential'' \<rparr>"
  let ?d1 = "\<lparr> od_id = ''second-output'', od_name = ''SecondCredential'' \<rparr>"
  let ?m = "manifestA\<lparr>output_descriptors := [?d0, ?d1]\<rparr>"
  let ?vc = "\<lparr> vc_type = ''FirstCredential'', vc_issuer = ''did:x:issuer-agent'',
                    vc_subject = ''did:x:B'', vc_data = JObj [(''level'', JNum 3)] \<rparr>"
  have h1: "output_descriptors ?m = ?d0 # [?d1]" by simp
  have h2: "vc_create exampleLib \<lparr> create_data = JObj [(''level'', JNum 3)], create_subject = ''did:x:B'',
       create_issuer = ''did:x:issuer-agent'', create_type = od_name ?d0 \<rparr> = Inr ?vc"
    by (simp add: exampleLib_def)
  have h3: "vc_sign exampleLib ?vc ''did:x:issuer-agent'' = Inr ''signed:FirstCredential:did:x:B:did:x:issuer-agent''"
    by (simp add: exampleLib_def)
  from C6_issueCredential_first_descriptor [where manifest = ?m and ?d0.0 = ?d0 and ds = "[?d1]"
      and L = exampleLib and data = "JObj [(''level'', JNum 3)]" and subjectDid = "''did:x:B''"
      and agentDid = "''did:x:issuer-agent''" and vc = ?vc
      and signed = "''signed:FirstCredential:did:x:B:did:x:issuer-agent''"] h1 h2 h3
  show ?thesis by simp
qed

section \<open>Request to the data provider: properties\<close>

lemma requestCredential_no_id:
  "requestCredential fetch stringifier opts body None
     = Inl (DcxProtocolHandlerError ''No VC data provider configured'')"
proof -
  have "find (\<lambda>provider. Some (provider_id provider) = None) (providers opts) = None"
    by (simp add: find_None_iff)
  then show ?thesis by (simp add: requestCredential_def)
qed

lemma requestCredential_unmatched:
  assumes "\<not> list_ex (\<lambda>p. provider_id p = i) (providers opts)"
  shows "requestCredential fetch stringifier opts body (Some i)
     = Inl (DcxProtocolHandlerError ''No VC data provider configured'')"
proof -
  have "find (\<lambda>provider. Some (provider_id provider) = Some i) (providers opts) = None"
    using assms by (simp add: find_None_iff list_ex_iff)
  then show ?thesis by (simp add: requestCredential_def)
qed

lemma requestCredential_matched:
  assumes "find (\<lambda>p. provider_id p = i) (providers opts) = Some provider"
  shows "requestCredential fetch stringifier opts body (Some i)
     = (case fetch (provider_request stringifier provider body) of
          Inl e \<Rightarrow> Inl e
        | Inr response \<Rightarrow> resp_json response)"
  using assms by (simp add: requestCredential_def split: sum.splits)

lemmas provider_defs =
  exampleProvider_def fetch_500_def fetch_unreachable_def example_stringifier_def mk_options_def
  provider_request_def

text \<open>
  C9 (amended). \<open>requestCredential\<close> raises \<^verbatim>\<open>DcxProtocolHandlerError('No VC data provider
  configured')\<close> when the id is omitted or matches no configured provider (the first
  provider is no fallback). With a matching provider, a rejection of \<^verbatim>\<open>fetch\<close> (a transport
  failure) propagates as the error of the call; once \<^verbatim>\<open>fetch\<close> resolves, the outcome is
  that of \<^verbatim>\<open>response.json()\<close> whatever the HTTP status: the parsed body is returned as
  data, and only a body that fails to parse raises.
\<close>

theorem C9_requestCredential_errors:
  "requestCredential fetch stringifier opts body None
     = Inl (DcxProtocolHandlerError ''No VC data provider configured'')
   \<and> (\<not> list_ex (\<lambda>p. provider_id p = i) (providers opts) \<longrightarrow>
        requestCredential fetch stringifier opts body (Some i)
          = Inl (DcxProtocolHandlerError ''No VC data provider configured''))
   \<and> (find (\<lambda>p. provider_id p = i) (providers opts) = Some provider
        \<and> fetch (provider_request stringifier provider body) = Inl e \<longrightarrow>
        requestCredential fetch stringifier opts body (Some i) = Inl e)
   \<and> (find (\<lambda>p. provider_id p = i) (providers opts) = Some provider
        \<and> fetch (provider_request stringifier provider body) = Inr response \<longrightarrow>
        requestCredential fetch stringifier opts body (Some i) = resp_json response)"
  using requestCredential_no_id [of fetch stringifier opts body]
    requestCredential_unmatched [of i opts fetch stringifier body]
    requestCredential_matched [of i opts provider fetch stringifier body]
  by simp

theorem C9_requestCredential_witness:
  "requestCredential fetch_500 example_stringifier
       (mk_options ([] :: nat ServerHandler list) [exampleProvider] [] [])
       (JObj [(''vcs'', JArr [])]) (Some ''other-provider'')
     = Inl (DcxProtocolHandlerError ''No VC data provider configured'')
   \<and> requestCredential fetch_unreachable example_stringifier
       (mk_options ([] :: nat ServerHandler list) [exampleProvider] [] [])
       (JObj [(''vcs'', JArr [])]) (Some ''data-provider'')
     = Inl (LibraryError ''fetch failed'')
   \<and> requestCredential fetch_500 example_stringifier
       (mk_options ([] :: nat ServerHandler list) [exampleProvider] [] [])
       (JObj [(''vcs'', JArr [])]) (Some ''data-provider'')
     = Inr (JObj [(''error'', JStr ''internal server error'')])"
proof -
  let ?opts = "mk_options ([] :: nat ServerHandler list) [exampleProvider] [] []"
  let ?body = "JObj [(''vcs'', JArr [])]"
  have n: "\<not> list_ex (\<lambda>p. provider_id p = ''other-provider'') (providers ?opts)"
    by (simp add: provider_defs)
  have f: "find (\<lambda>p. provider_id p = ''data-provider'') (providers ?opts) = Some exampleProvider"
    by (simp add: provider_defs)
  have u: "fetch_unreachable (provider_request example_stringifier exampleProvider ?body)
      = Inl (LibraryError ''fetch failed'')"
    by (simp add: fetch_unreachable_def)
  have r: "fetch_500 (provider_request example_stringifier exampleProvider ?body)
      = Inr \<lparr> resp_status = 500, resp_json = Inr (JObj [(''error'', JStr ''internal server error'')]) \<rparr>"
    by (simp add: fetch_500_def)
  from C9_requestCredential_errors [where fetch = fetch_500 and stringifier = example_stringifier
      and opts = ?opts and body = ?body and i = "''other-provider''"] n
  have c1: "requestCredential fetch_500 example_stringifier ?opts ?body (Some ''other-provider'')
     = Inl (DcxProtocolHandlerError ''No VC data provider configured'')"
    by blast
  from C9_requestCredential_errors [where fetch = fetch_unreachable and stringifier = example_stringifier
      and opts = ?opts and body = ?body and i = "''data-provider''" and provider = exampleProvider
      and e = "LibraryError ''fetch failed''"] f u
  have c2: "requestCredential fetch_unreachable example_stringifier ?opts ?body (Some ''data-provider'')
     = Inl (LibraryError ''fetch failed'')"
    by blast
  from C9_requestCredential_errors [where fetch = fetch_500 and stringifier = example_stringifier
      and opts = ?opts and body = ?body and i = "''data-provider''" and provider = exampleProvider
      and response = "\<lparr> resp_status = 500, resp_json = Inr (JObj [(''error'', JStr ''internal server error'')]) \<rparr>"] f r
  have c3: "requestCredential fetch_500 example_stringifier ?opts ?body (Some ''data-provider'')
     = Inr (JObj [(''error'', JStr ''internal server error'')])"
    by simp
  from c1 c2 c3 show ?thesis by simp
qed

text \<open>
  The non-2xx part of C9 fails: the status of the response is never read. A provider
  that answers HTTP 500 with a JSON body has that body returned as the credential data.
\<close>

theorem C9_non_2xx_counterexample:
  "requestCredential fetch_500 example_stringifier
       (mk_options ([] :: nat ServerHandler list) [exampleProvider] [] [])
       (JObj [(''vcs'', JArr [])]) (Some ''data-provider'')
     = Inr (JObj [(''error'', JStr ''internal server error'')])
   \<and> map_sum id resp_status (fetch_500 (provider_request example_stringifier exampleProvider (JObj [(''vcs'', JArr [])])))
     = Inr 500"
  by (simp add: requestCredential_def provider_defs)

section \<open>Protocol reconciliation: properties\<close>

lemmas node_defs =
  memoryDwn_def emptyNode_def exampleEnv_def status_ok_def status_accepted_def
  dwn_no_handle_def dwn_configure_fails_def dwn_no_record_def dwn_send_fails_def

lemmas setup_defs =
  setupDwn_def await_then_def queryProtocols_def configureProtocols_def queryRecords_def
  readRecords_def readRecords_settled_def createRecords_def createRecords_settled_def
  createManifestRecord_create_def createManifestRecord_send_def createManifestRecord_return_def
  Promise_all_def filterRecords_def

lemma memoryDwn_calls:
  "protocols_query memoryDwn uri n = ((status_ok, Some (filter (\<lambda>p. protocol p = uri) (node_protocols n))), n)"
  "protocols_configure memoryDwn d n = ((status_accepted, Some d), n\<lparr> node_protocols := node_protocols n @ [d] \<rparr>)"
  "protocol_send memoryDwn p did n = (status_accepted, n)"
  "records_query memoryDwn n = ((status_ok, Some (node_records n)), n)"
  "records_read memoryDwn rid n = ((status_ok, find (\<lambda>r. record_id r = rid) (node_records n)), n)"
  "records_create memoryDwn m n =
     ((status_accepted,
       Some \<lparr> record_id = ''record-'' @ replicate (length (node_records n)) (CHR ''i''), record_data = Inr m \<rparr>),
      n\<lparr> node_records := node_records n
           @ [\<lparr> record_id = ''record-'' @ replicate (length (node_records n)) (CHR ''i''), record_data = Inr m \<rparr>] \<rparr>)"
  "record_send memoryDwn r n = (status_accepted, n)"
  by (simp_all add: memoryDwn_def Let_def)

lemma exampleEnv_status:
  "\<not> isFailure exampleEnv (status_code status_ok)"
  "\<not> isFailure exampleEnv (status_code status_accepted)"
  by (simp_all add: exampleEnv_def status_ok_def status_accepted_def)

lemma configureProtocols_no_handle_or_failure:
  assumes "protocols_configure D (issuer_definition env) n = ((configure, handle), n1)"
    and "isFailure env (status_code configure) \<or> handle = None"
  shows "configureProtocols D env n
       = (Inl (DwnError (status_code configure) (status_detail configure)), n1)"
  using assms by (auto simp: configureProtocols_def)

lemma configureProtocols_send:
  assumes "protocols_configure D (issuer_definition env) n = ((configure, Some p), n1)"
    and "\<not> isFailure env (status_code configure)"
    and "protocol_send D p (agentDid_uri env) n1 = (send, n2)"
  shows "configureProtocols D env n
       = (if isFailure env (status_code send)
          then Inl (DwnError (status_code send) (status_detail send))
          else Inr (send, p), n2)"
  using assms by (simp add: configureProtocols_def)

text \<open>
  C7 (amended). \<open>configureProtocols\<close> fails with \<open>DwnError\<close> carrying the code and detail
  of the configure status when the configure call reports a failure status or returns no
  protocol handle (one guard for both, so a missing handle under a success status raises
  the same kind of error, with the success code); it fails with \<open>DwnError\<close> carrying the
  code and detail of the send status when the publish call reports failure; otherwise it
  returns the send status and the handle.
\<close>

theorem C7_configureProtocols_errors:
  "(protocols_configure D (issuer_definition env) n = ((configure, handle), n1)
      \<and> (isFailure env (status_code configure) \<or> handle = None) \<longrightarrow>
      configureProtocols D env n
        = (Inl (DwnError (status_code configure) (status_detail configure)), n1))
   \<and> (protocols_configure D (issuer_definition env) n = ((configure, Some p), n1)
      \<and> \<not> isFailure env (status_code configure)
      \<and> protocol_send D p (agentDid_uri env) n1 = (send, n2)
      \<and> isFailure env (status_code send) \<longrightarrow>
      configureProtocols D env n = (Inl (DwnError (status_code send) (status_detail send)), n2))
   \<and> (protocols_configure D (issuer_definition env) n = ((configure, Some p), n1)
      \<and> \<not> isFailure env (status_code configure)
      \<and> protocol_send D p (agentDid_uri env) n1 = (send, n2)
      \<and> \<not> isFailure env (status_code send) \<longrightarrow>
      configureProtocols D env n = (Inr (send, p), n2))"
  using configureProtocols_no_handle_or_failure [of D env n configure handle n1]
    configureProtocols_send [of D env n configure p n1 send n2]
  by simp

theorem C7_configureProtocols_witness:
  "configureProtocols dwn_no_handle exampleEnv emptyNode = (Inl (DwnError 202 ''Accepted''), emptyNode)
   \<and> configureProtocols dwn_configure_fails exampleEnv emptyNode
       = (Inl (DwnError 500 ''Internal Server Error''), emptyNode)
   \<and> configureProtocols dwn_send_fails exampleEnv emptyNode
       = (Inl (DwnError 401 ''Unauthorized''), emptyNode\<lparr>node_protocols := [issuer_definition exampleEnv]\<rparr>)
   \<and> configureProtocols memoryDwn exampleEnv emptyNode
       = (Inr (status_accepted, issuer_definition exampleEnv),
          emptyNode\<lparr>node_protocols := [issuer_definition exampleEnv]\<rparr>)"
proof -
  let ?n1 = "emptyNode\<lparr>node_protocols := [issuer_definition exampleEnv]\<rparr>"
  let ?p = "issuer_definition exampleEnv"
  have ok: "\<not> isFailure exampleEnv (status_code status_accepted)"
    and bad: "isFailure exampleEnv 500" "isFailure exampleEnv 401"
    by (simp_all add: node_defs)
  have a: "protocols_configure dwn_no_handle ?p emptyNode = ((status_accepted, None), emptyNode)"
    by (simp add: node_defs)
  have b: "protocols_configure dwn_configure_fails ?p emptyNode
      = ((\<lparr> status_code = 500, status_detail = ''Internal Server Error'' \<rparr>, None), emptyNode)"
    by (simp add: node_defs)
  have c: "protocols_configure dwn_send_fails ?p emptyNode = ((status_accepted, Some ?p), ?n1)"
    "protocol_send dwn_send_fails ?p (agentDid_uri exampleEnv) ?n1
      = (\<lparr> status_code = 401, status_detail = ''Unauthorized'' \<rparr>, ?n1)"
    by (simp_all add: node_defs)
  have d: "protocols_configure memoryDwn ?p emptyNode = ((status_accepted, Some ?p), ?n1)"
    "protocol_send memoryDwn ?p (agentDid_uri exampleEnv) ?n1 = (status_accepted, ?n1)"
    by (simp_all add: node_defs)
  from C7_configureProtocols_errors [where D = dwn_no_handle and env = exampleEnv and n = emptyNode
      and configure = status_accepted and handle = None and ?n1.0 = emptyNode] a
  have r1: "configureProtocols dwn_no_handle exampleEnv emptyNode
      = (Inl (DwnError (status_code status_accepted) (status_detail status_accepted)), emptyNode)"
    by blast
  from C7_configureProtocols_errors [where D = dwn_configure_fails and env = exampleEnv and n = emptyNode
      and configure = "\<lparr> status_code = 500, status_detail = ''Internal Server Error'' \<rparr>"
      and handle = None and ?n1.0 = emptyNode] b bad
  have r2: "configureProtocols dwn_configure_fails exampleEnv emptyNode
      = (Inl (DwnError 500 ''Internal Server Error''), emptyNode)"
    by simp
  from C7_configureProtocols_errors [where D = dwn_send_fails and env = exampleEnv and n = emptyNode
      and configure = status_accepted and p = ?p and ?n1.0 = ?n1
      and send = "\<lparr> status_code = 401, status_detail = ''Unauthorized'' \<rparr>" and ?n2.0 = ?n1] c ok bad
  have r3: "configureProtocols dwn_send_fails exampleEnv emptyNode
      = (Inl (DwnError 401 ''Unauthorized''), ?n1)"
    by simp
  from C7_configureProtocols_errors [where D = memoryDwn and env = exampleEnv and n = emptyNode
      and configure = status_accepted and p = ?p and ?n1.0 = ?n1
      and send = status_accepted and ?n2.0 = ?n1] d ok
  have r4: "configureProtocols memoryDwn exampleEnv emptyNode = (Inr (status_accepted, ?p), ?n1)"
    by blast
  from r1 r2 r3 r4 show ?thesis by (simp add: status_accepted_def)
qed

text \<open>
  There is no distinct protocol-missing error: a configure call that is accepted (202)
  and returns no handle raises \<open>DwnError 202 ''Accepted''\<close>, the error a failure status
  raises (\<open>DwnError 500 \<dots>\<close> below).
\<close>

theorem C7_no_distinct_error_counterexample:
  "\<not> isFailure exampleEnv (status_code status_accepted)
   \<and> protocols_configure dwn_no_handle (issuer_definition exampleEnv) emptyNode
       = ((status_accepted, None), emptyNode)
   \<and> fst (configureProtocols dwn_no_handle exampleEnv emptyNode) = Inl (DwnError 202 ''Accepted'')
   \<and> fst (configureProtocols dwn_configure_fails exampleEnv emptyNode)
       = Inl (DwnError 500 ''Internal Server Error'')"
  by (simp add: configureProtocols_def node_defs)

section \<open>Manifest reconciliation: properties\<close>








lemma createManifestRecord_steps:
  "createManifestRecord D env m n =
     (case createManifestRecord_create D env m n of
        (response, n1) \<Rightarrow>
          (case createManifestRecord_send D env m response n1 of
             (Inl e, n2) \<Rightarrow> (Inl e, n2)
           | (Inr pending, n2) \<Rightarrow> (createManifestRecord_return env pending, n2)))"
  by (simp add: createManifestRecord_def createManifestRecord_create_def createManifestRecord_send_def
      createManifestRecord_return_def Let_def split: prod.splits option.splits)












lemma counterDwn_calls:
  "records_create counterDwn m n =
     ((status_accepted, Some \<lparr> record_id = ''record-'' @ replicate n (CHR ''i''), record_data = Inr m \<rparr>), Suc n)"
  "record_send counterDwn r n = (status_accepted, Suc n)"
  by (simp_all add: counterDwn_def)

lemma dwn_two_failures_calls:
  "records_create dwn_two_failures m n =
     (if manifest_id m = ''EXAMPLE-MANIFEST''
      then ((\<lparr> status_code = 500, status_detail = ''Internal Server Error'' \<rparr>, None), Suc n)
      else records_create counterDwn m n)"
  "record_send dwn_two_failures r n =
     (if record_id r = ''record-''
      then (\<lparr> status_code = 401, status_detail = ''Unauthorized'' \<rparr>, Suc n)
      else (status_accepted, Suc n))"
  by (simp_all add: dwn_two_failures_def counterDwn_def)

lemma exampleEnv_failures:
  "isFailure exampleEnv 500" "isFailure exampleEnv 401"
  by (simp_all add: exampleEnv_def)

lemma example_manifest_ids:
  "manifest_id manifestA = ''DCX-HANDSHAKE-MANIFEST''"
  "manifest_id manifestB = ''EXAMPLE-MANIFEST''"
  by (simp_all add: manifestA_def manifestB_def mk_manifest_def)


text \<open>
  The order of the calls and of the rejections under \<^verbatim>\<open>Promise.all\<close>, on the counting
  node: both records are created (ids from counts 0 and 1) before either is sent; a
  creation that fails rejects a turn before a send that is refused, so the error of the
  second manifest is the one thrown; and a missing record rejects before data that does
  not parse.
\<close>

lemma createRecords_creates_before_sends:
  "createRecords counterDwn exampleEnv [manifestA, manifestB] 0
     = (Inr [\<lparr> record_id = ''record-'', record_data = Inr patchedA \<rparr>,
             \<lparr> record_id = ''record-i'', record_data = Inr patchedB \<rparr>], 4)"
  by (simp add: setup_defs counterDwn_calls exampleEnv_status patchedA_def patchedB_def)

lemma createRecords_first_rejection_in_time:
  "createRecords_settled dwn_two_failures exampleEnv [manifestA, manifestB] 0
     = ([Rejected 2 (DwnError 401 ''Unauthorized''), Rejected 1 (DwnError 500 ''Internal Server Error'')], 3)"
  "createRecords dwn_two_failures exampleEnv [manifestA, manifestB] 0
     = (Inl (DwnError 500 ''Internal Server Error''), 3)"
  by (simp_all add: setup_defs dwn_two_failures_calls counterDwn_calls exampleEnv_status
      exampleEnv_failures example_manifest_ids)

lemma readRecords_first_rejection_in_time:
  "readRecords_settled memoryDwn [unparsableRecord, unknownRecord] nodeWithUnparsable
     = ([Rejected 2 (LibraryError ''invalid json''), Rejected 1 (TypeError ''record is undefined'')],
        nodeWithUnparsable)"
  "readRecords memoryDwn [unparsableRecord, unknownRecord] nodeWithUnparsable
     = (Inl (TypeError ''record is undefined''), nodeWithUnparsable)"
  by (simp_all add: setup_defs memoryDwn_calls unparsableRecord_def unknownRecord_def
      nodeWithUnparsable_def)




section \<open>Setup: properties\<close>

lemma first_setup:
  "setupDwn memoryDwn exampleEnv twoManifestOptions emptyNode
     = (Inr (),
        \<lparr> node_protocols = [issuer_definition exampleEnv],
          node_records =
            [\<lparr> record_id = ''record-'',
               record_data = Inr (manifestA\<lparr>manifest_issuer := (manifest_issuer manifestA)\<lparr>issuer_id := agentDid_uri exampleEnv\<rparr>\<rparr>) \<rparr>,
             \<lparr> record_id = ''record-i'',
               record_data = Inr (manifestB\<lparr>manifest_issuer := (manifest_issuer manifestB)\<lparr>issuer_id := agentDid_uri exampleEnv\<rparr>\<rparr>) \<rparr>] \<rparr>)"
  by (simp add: setup_defs memoryDwn_calls exampleEnv_status Let_def emptyNode_def
      twoManifestOptions_def mk_options_def)

lemma first_setup':
  "setupDwn memoryDwn exampleEnv twoManifestOptions emptyNode = (Inr (), nodeAfterFirstSetup)"
  by (simp add: first_setup nodeAfterFirstSetup_def patchedA_def patchedB_def)

lemma second_filter:
  "filterRecords twoManifestOptions [patchedA, patchedB] = [manifestA, manifestB]"
  by (simp add: filterRecords_def twoManifestOptions_def mk_options_def patchedA_def patchedB_def
      example_manifest_ids)

lemma second_setup:
  "setupDwn memoryDwn exampleEnv twoManifestOptions nodeAfterFirstSetup
     = (Inr (),
        nodeAfterFirstSetup\<lparr> node_records := node_records nodeAfterFirstSetup
          @ [\<lparr> record_id = ''record-ii'', record_data = Inr patchedA \<rparr>,
             \<lparr> record_id = ''record-iii'', record_data = Inr patchedB \<rparr>] \<rparr>)"
  by (simp add: setup_defs memoryDwn_calls exampleEnv_status Let_def nodeAfterFirstSetup_def
      twoManifestOptions_def mk_options_def patchedA_def patchedB_def example_manifest_ids)

text \<open>
  C2. The claim says that a second run of the setup creates nothing. With two configured
  manifests of different ids it does: after a first successful run on the empty node the
  node holds one record per manifest; in the second run \<open>filterRecords\<close> reports both
  manifests as missing (each has an existing manifest with a different id), both are
  created again, and the node holds two records per configured manifest id. The protocol
  definition is not configured again.
\<close>

theorem C2_second_setup_duplicates:
  "setupDwn memoryDwn exampleEnv twoManifestOptions emptyNode = (Inr (), nodeAfterFirstSetup)
   \<and> manifest_ids_on nodeAfterFirstSetup = [''DCX-HANDSHAKE-MANIFEST'', ''EXAMPLE-MANIFEST'']
   \<and> filterRecords twoManifestOptions [patchedA, patchedB] = [manifestA, manifestB]
   \<and> fst (setupDwn memoryDwn exampleEnv twoManifestOptions nodeAfterFirstSetup) = Inr ()
   \<and> manifest_ids_on (snd (setupDwn memoryDwn exampleEnv twoManifestOptions nodeAfterFirstSetup))
       = [''DCX-HANDSHAKE-MANIFEST'', ''EXAMPLE-MANIFEST'', ''DCX-HANDSHAKE-MANIFEST'', ''EXAMPLE-MANIFEST'']
   \<and> node_protocols (snd (setupDwn memoryDwn exampleEnv twoManifestOptions nodeAfterFirstSetup))
       = [issuer_definition exampleEnv]"
proof -
  let ?n2 = "nodeAfterFirstSetup\<lparr> node_records := node_records nodeAfterFirstSetup
          @ [\<lparr> record_id = ''record-ii'', record_data = Inr patchedA \<rparr>,
             \<lparr> record_id = ''record-iii'', record_data = Inr patchedB \<rparr>] \<rparr>"
  have ids: "manifest_id patchedA = ''DCX-HANDSHAKE-MANIFEST''" "manifest_id patchedB = ''EXAMPLE-MANIFEST''"
    by (simp_all add: patchedA_def patchedB_def example_manifest_ids)
  have ids1: "manifest_ids_on nodeAfterFirstSetup = [''DCX-HANDSHAKE-MANIFEST'', ''EXAMPLE-MANIFEST'']"
    by (simp add: manifest_ids_on_def nodeAfterFirstSetup_def ids)
  have ids2: "manifest_ids_on ?n2
      = [''DCX-HANDSHAKE-MANIFEST'', ''EXAMPLE-MANIFEST'', ''DCX-HANDSHAKE-MANIFEST'', ''EXAMPLE-MANIFEST'']"
    by (simp add: manifest_ids_on_def nodeAfterFirstSetup_def ids)
  have pr: "node_protocols ?n2 = [issuer_definition exampleEnv]"
    by (simp add: nodeAfterFirstSetup_def)
  show ?thesis
    unfolding second_setup fst_conv snd_conv
    using first_setup' second_filter ids1 ids2 pr by blast
qed

end
